theory Spec2Isabelle
  imports Complex_Main "HOL-Library.AList"
begin

section \<open>Errors\<close>

text \<open>
  Every exception the modelled functions of \<^verbatim>\<open>ml_utils.py\<close> can raise is a value of
  this type; a function that can raise returns \<open>py_error + 'a\<close> with \<open>Inl\<close> the error.
\<close>

datatype py_error =
    ValueError string
  | KeyError string
  | IndexError
  | FileNotFoundError string
  | DataError
  | TypeError
  | OutOfBoundsDatetime

section \<open>Model registry: \<^verbatim>\<open>GCSUtils\<close>\<close>

text \<open>
  The bucket file system is a map from paths to stored artifacts. \<^verbatim>\<open>fs.rename\<close> moves the
  object at the source path to the destination path and raises when the source is absent.
\<close>

type_synonym 'm gcs = "string \<rightharpoonup> 'm"

definition fs_rename :: "'m gcs \<Rightarrow> string \<Rightarrow> string \<Rightarrow> py_error + 'm gcs" where
  "fs_rename fs src dst =
     (case fs src of
        None \<Rightarrow> Inl (FileNotFoundError src)
      | Some b \<Rightarrow> Inr ((fs(dst \<mapsto> b))(src := None)))"

text \<open>
  \<^verbatim>\<open>get_trained_model_from_gcs(project_name, bucket_name, source_blob_name)\<close>: opens
  \<^verbatim>\<open>bucket_name + "/" + source_blob_name\<close> for reading.
\<close>

definition get_trained_model_from_gcs :: "'m gcs \<Rightarrow> string \<Rightarrow> string \<Rightarrow> py_error + 'm" where
  "get_trained_model_from_gcs fs bucket_name source_blob_name =
     (case fs (bucket_name @ ''/'' @ source_blob_name) of
        None \<Rightarrow> Inl (FileNotFoundError (bucket_name @ ''/'' @ source_blob_name))
      | Some job \<Rightarrow> Inr job)"

text \<open>
  \<^verbatim>\<open>upload_trained_model_to_gcs(trained_model, project_name, bucket_name, source_blob_name)\<close>.
  The argument \<open>now\<close> is the text of \<^verbatim>\<open>datetime.now()\<close> at the call. The source renames
  \<^verbatim>\<open>f"{bucket_name}/{source_blob_name}"\<close> to
  \<^verbatim>\<open>f"{bucket_name}/{datetime.now()}-{source_blob_name}"\<close> inside a bare
  \<^verbatim>\<open>try/except\<close>, prints one of two messages, and then writes the new artifact. The
  result is the file system after the call and the printed line.
\<close>

definition backup_path :: "string \<Rightarrow> string \<Rightarrow> string \<Rightarrow> string" where
  "backup_path bucket_name now source_blob_name = bucket_name @ ''/'' @ now @ ''-'' @ source_blob_name"

definition upload_trained_model_to_gcs ::
  "'m \<Rightarrow> string \<Rightarrow> string \<Rightarrow> string \<Rightarrow> 'm gcs \<Rightarrow> 'm gcs \<times> string" where
  "upload_trained_model_to_gcs trained_model bucket_name source_blob_name now fs =
     (let (fs1, printed) =
            (case fs_rename fs (bucket_name @ ''/'' @ source_blob_name)
                    (backup_path bucket_name now source_blob_name) of
               Inr fs' \<Rightarrow> (fs', ''Bucket: previous model is backed up'')
             | Inl e \<Rightarrow> (fs, ''Bucket: No file to updated''))
      in (fs1((bucket_name @ ''/'' @ source_blob_name) \<mapsto> trained_model), printed))"

section \<open>Data frames\<close>

text \<open>
  A pandas data frame is a list of named columns, in column order; a column is a list of
  cells. A cell is a missing value (\<^verbatim>\<open>NaN\<close>, \<^verbatim>\<open>NaT\<close>, \<^verbatim>\<open>None\<close>), a float, a string or a time
  stamp (\<^verbatim>\<open>datetime64[ns]\<close>: nanoseconds since the epoch, a signed 64-bit number other
  than the least one, which is \<^verbatim>\<open>NaT\<close>). Floats are modelled as real numbers.
\<close>

datatype cell = NaN | Num real | Str string | Time int

type_synonym column = "cell list"
type_synonym frame = "(string \<times> column) list"

definition columns :: "frame \<Rightarrow> string list" where
  "columns df = map fst df"

definition nrows :: "frame \<Rightarrow> nat" where
  "nrows df = (case df of [] \<Rightarrow> 0 | (n, c) # rest \<Rightarrow> length c)"

text \<open>\<^verbatim>\<open>df.empty\<close>: an axis of length zero.\<close>

definition empty :: "frame \<Rightarrow> bool" where
  "empty df = (df = [] \<or> nrows df = 0)"

text \<open>\<^verbatim>\<open>df[name]\<close> where the callers have checked that the column exists.\<close>

definition col :: "frame \<Rightarrow> string \<Rightarrow> column" where
  "col df name = (case map_of df name of Some c \<Rightarrow> c | None \<Rightarrow> [])"

text \<open>
  \<^verbatim>\<open>df[name] = values\<close>: an existing column is replaced where it stands, a new one is
  appended as the last column.
\<close>

definition set_col :: "string \<Rightarrow> column \<Rightarrow> frame \<Rightarrow> frame" where
  "set_col name c df = AList.update name c df"

definition take_rows :: "nat list \<Rightarrow> frame \<Rightarrow> frame" where
  "take_rows idxs df = map (\<lambda>(n, c). (n, map ((!) c) idxs)) df"

definition filter_rows :: "(nat \<Rightarrow> bool) \<Rightarrow> frame \<Rightarrow> frame" where
  "filter_rows p df = take_rows (filter p [0..<nrows df]) df"

definition drop_cols :: "string list \<Rightarrow> frame \<Rightarrow> frame" where
  "drop_cols names df = filter (\<lambda>(n, c). n \<notin> set names) df"

text \<open>\<^verbatim>\<open>df.dropna(subset=names)\<close>: the rows with no missing cell in the named columns.\<close>

definition dropna :: "string list \<Rightarrow> frame \<Rightarrow> frame" where
  "dropna names df = filter_rows (\<lambda>i. list_all (\<lambda>n. col df n ! i \<noteq> NaN) names) df"

text \<open>
  \<^verbatim>\<open>Series.unique()\<close>: the distinct values in order of first appearance (a missing value
  counts as one value).
\<close>

fun unique :: "'a list \<Rightarrow> 'a list" where
  "unique [] = []"
| "unique (x # xs) = x # unique (filter (\<lambda>y. y \<noteq> x) xs)"

text \<open>\<^verbatim>\<open>series == value\<close>: a missing value equals nothing, not even itself.\<close>

definition cell_eq :: "cell \<Rightarrow> cell \<Rightarrow> bool" where
  "cell_eq a b = (a = b \<and> a \<noteq> NaN)"

text \<open>\<^verbatim>\<open>pd.concat([a, b])\<close>: rows of \<open>a\<close>, then rows of \<open>b\<close>, over the union of the columns.\<close>

definition pd_concat :: "frame \<Rightarrow> frame \<Rightarrow> frame" where
  "pd_concat a b =
     map (\<lambda>n. (n, (if n \<in> set (columns a) then col a n else replicate (nrows a) NaN)
               @ (if n \<in> set (columns b) then col b n else replicate (nrows b) NaN)))
       (columns a @ filter (\<lambda>n. n \<notin> set (columns a)) (columns b))"

text \<open>The time stamps \<^verbatim>\<open>datetime64[ns]\<close> can hold.\<close>

definition in_bounds :: "int \<Rightarrow> bool" where
  "in_bounds ns = (- 9223372036854775808 < ns \<and> ns \<le> 9223372036854775807)"

text \<open>
  \<^verbatim>\<open>pd.to_datetime(series)\<close>. The parser of date strings is pandas' and is the parameter
  \<open>parse\<close>: it is given the column (pandas infers the format from the column) and the
  string, and gives the nanoseconds, or nothing where pandas raises. A number is a count of
  nanoseconds since the epoch, cut to an integer; one outside the 64-bit range raises
  \<^verbatim>\<open>OutOfBoundsDatetime\<close>. Every failure of the conversion is the value \<open>None\<close>.
\<close>

definition to_datetime_cell :: "(string \<Rightarrow> int option) \<Rightarrow> cell \<Rightarrow> cell option" where
  "to_datetime_cell parse_string c =
     (case c of
        NaN \<Rightarrow> Some NaN
      | Time t \<Rightarrow> Some (Time t)
      | Num x \<Rightarrow> (let ns = (if 0 \<le> x then \<lfloor>x\<rfloor> else \<lceil>x\<rceil>)
                  in if in_bounds ns then Some (Time ns) else None)
      | Str s \<Rightarrow> (case parse_string s of
                    None \<Rightarrow> None
                  | Some t \<Rightarrow> if in_bounds t then Some (Time t) else None))"

definition to_datetime :: "(column \<Rightarrow> string \<Rightarrow> int option) \<Rightarrow> column \<Rightarrow> column option" where
  "to_datetime parse c =
     (if list_all (\<lambda>x. to_datetime_cell (parse c) x \<noteq> None) c
      then Some (map (\<lambda>x. the (to_datetime_cell (parse c) x)) c) else None)"

text \<open>\<^verbatim>\<open>str(n)\<close> for a natural number.\<close>

fun str_nat :: "nat \<Rightarrow> string" where
  "str_nat n =
     (if n < 10 then [''0123456789'' ! n]
      else str_nat (n div 10) @ [''0123456789'' ! (n mod 10)])"

declare str_nat.simps [simp del]

section \<open>Shifts, groups and rolling windows\<close>

text \<open>\<^verbatim>\<open>Series.shift(s)\<close>: every value moves \<open>s\<close> rows down; the first \<open>s\<close> rows are missing.\<close>

definition shift :: "nat \<Rightarrow> column \<Rightarrow> column" where
  "shift s xs = take (length xs) (replicate s NaN @ xs)"

text \<open>The group key of row \<open>i\<close>: its cells in the grouping columns.\<close>

definition group_keys :: "frame \<Rightarrow> string list \<Rightarrow> cell list list" where
  "group_keys df names = map (\<lambda>i. map (\<lambda>n. col df n ! i) names) [0..<nrows df]"

text \<open>
  \<^verbatim>\<open>df.groupby(names)[target].transform(f)\<close> (and \<^verbatim>\<open>.shift(s)\<close>, which is such a
  transform): \<open>f\<close> is applied to the values of each group, in row order, and each result is
  written back to the rows of its group. Rows with a missing cell in their key belong to no
  group and get a missing value.
\<close>

definition group_rows :: "cell list list \<Rightarrow> cell list \<Rightarrow> nat list" where
  "group_rows keys k = filter (\<lambda>j. keys ! j = k) [0..<length keys]"

definition groupby_transform :: "(column \<Rightarrow> column) \<Rightarrow> cell list list \<Rightarrow> column \<Rightarrow> column" where
  "groupby_transform f keys vals =
     map (\<lambda>t. if NaN \<in> set (keys ! t) then NaN
              else f (map ((!) vals) (group_rows keys (keys ! t)))
                     ! length (filter (\<lambda>j. keys ! j = keys ! t) [0..<t]))
       [0..<length keys]"

text \<open>
  \<^verbatim>\<open>series.rolling(s).agg(f)\<close> on a numeric column: the value at a row is missing unless
  the \<open>s\<close> rows ending at the row lie inside the series and hold \<open>s\<close> numbers
  (\<^verbatim>\<open>min_periods\<close> is the window size). The statistic itself (\<^verbatim>\<open>mean\<close>,
  \<^verbatim>\<open>std\<close>, \<^verbatim>\<open>skew\<close>, ...) is pandas' and is the parameter \<open>stat\<close>; pandas
  computes it in one pass over the column in floating point (the skew after centring the
  whole column), so \<open>stat\<close> is given the whole column and the row, and nothing is assumed
  about which cells of the column its value depends on. It gives a float, or nothing for a
  missing value. On a column that is not numeric pandas raises \<^verbatim>\<open>DataError\<close>; the
  callers below check \<open>is_numeric\<close> before they call \<open>rolling\<close>.
\<close>

fun num :: "cell \<Rightarrow> real" where
  "num (Num x) = x"
| "num c = 0"

fun is_num :: "cell \<Rightarrow> bool" where
  "is_num (Num x) = True"
| "is_num c = False"

definition is_numeric :: "column \<Rightarrow> bool" where
  "is_numeric c = list_all (\<lambda>x. x = NaN \<or> is_num x) c"

definition rolling :: "nat \<Rightarrow> (column \<Rightarrow> nat \<Rightarrow> real option) \<Rightarrow> column \<Rightarrow> column" where
  "rolling s stat xs =
     map (\<lambda>t. if Suc t < s then NaN
              else (let w = take s (drop (Suc t - s) xs)
                    in if list_all is_num w
                       then (case stat xs t of None \<Rightarrow> NaN | Some x \<Rightarrow> Num x)
                       else NaN))
       [0..<length xs]"

section \<open>\<^verbatim>\<open>BaseMlUtils.get_lag_and_roll_features\<close>\<close>

text \<open>
  The column names \<^verbatim>\<open>f"pm2_5_last_{s}_{unit}"\<close> and \<^verbatim>\<open>f"pm2_5_{f}_{s}_{unit}"\<close>.
\<close>

definition lag_name :: "nat \<Rightarrow> string \<Rightarrow> string" where
  "lag_name s unit = ''pm2_5_last_'' @ str_nat s @ ''_'' @ unit"

definition roll_name :: "string \<Rightarrow> nat \<Rightarrow> string \<Rightarrow> string" where
  "roll_name f s unit = ''pm2_5_'' @ f @ ''_'' @ str_nat s @ ''_'' @ unit"

text \<open>
  The two loops of each branch. Every assignment reads the frame as the previous
  assignments left it, as the source does.
\<close>

definition add_lag_features :: "string \<Rightarrow> string \<Rightarrow> nat list \<Rightarrow> frame \<Rightarrow> frame" where
  "add_lag_features target_col unit shifts df1 =
     foldl (\<lambda>d s. set_col (lag_name s unit)
                     (groupby_transform (shift s) (group_keys d [''device_id'']) (col d target_col)) d)
       df1 shifts"

definition add_roll_features ::
  "(string \<Rightarrow> nat \<Rightarrow> column \<Rightarrow> nat \<Rightarrow> real option) \<Rightarrow> string \<Rightarrow> string \<Rightarrow> nat list \<Rightarrow> string list \<Rightarrow> frame \<Rightarrow> frame" where
  "add_roll_features agg target_col unit shifts functions df1 =
     foldl (\<lambda>d (s, f). set_col (roll_name f s unit)
                     (rolling s (agg f s)
                        (groupby_transform (shift 1) (group_keys d [''device_id'']) (col d target_col))) d)
       df1 (concat (map (\<lambda>s. map (\<lambda>f. (s, f)) functions) shifts))"

text \<open>
  \<^verbatim>\<open>get_lag_and_roll_features(df, target_col, freq)\<close>. The source assigns the parsed time
  stamps to the caller's frame before it copies the frame, so the result is a pair: the
  caller's frame after the call, and the returned frame or the error raised. The first
  \<^verbatim>\<open>rolling\<close> of a target column that is not numeric raises \<^verbatim>\<open>DataError\<close>.
\<close>

definition lag_and_roll ::
  "(string \<Rightarrow> nat \<Rightarrow> column \<Rightarrow> nat \<Rightarrow> real option) \<Rightarrow> string \<Rightarrow> string \<Rightarrow> nat list \<Rightarrow> nat list
     \<Rightarrow> string list \<Rightarrow> frame \<Rightarrow> py_error + frame" where
  "lag_and_roll agg target_col unit shifts1 shifts2 functions df1 =
     (let df2 = add_lag_features target_col unit shifts1 df1
      in if \<not> is_numeric (col df2 target_col) then Inl DataError
         else Inr (add_roll_features agg target_col unit shifts2 functions df2))"

definition get_lag_and_roll_features ::
  "(column \<Rightarrow> string \<Rightarrow> int option) \<Rightarrow> (string \<Rightarrow> nat \<Rightarrow> column \<Rightarrow> nat \<Rightarrow> real option) \<Rightarrow> frame \<Rightarrow> string \<Rightarrow> string
     \<Rightarrow> frame \<times> (py_error + frame)" where
  "get_lag_and_roll_features parse agg df target_col freq =
     (if empty df then (df, Inl (ValueError ''Empty dataframe provided''))
      else if target_col \<notin> set (columns df) \<or> ''timestamp'' \<notin> set (columns df)
              \<or> ''device_id'' \<notin> set (columns df)
      then (df, Inl (ValueError ''Required columns missing''))
      else (case to_datetime parse (col df ''timestamp'') of
              None \<Rightarrow> (df, Inl (ValueError ''time data does not match format''))
            | Some ts \<Rightarrow>
                (let df' = set_col ''timestamp'' ts df; df1 = df'
                 in if freq = ''daily''
                    then (df', lag_and_roll agg target_col ''day'' [1, 2, 3, 7] [2, 3, 7]
                                 [''mean'', ''std'', ''max'', ''min''] df1)
                    else if freq = ''hourly''
                    then (df', lag_and_roll agg target_col ''hour'' [1, 2, 6, 12] [3, 6, 12, 24]
                                 [''mean'', ''std'', ''median'', ''skew''] df1)
                    else (df', Inl (ValueError ''Invalid frequency'')))))"

section \<open>\<^verbatim>\<open>BaseMlUtils.preprocess_data\<close>\<close>

text \<open>
  \<^verbatim>\<open>x.interpolate(method="linear", limit_direction="both")\<close> on a float column. The
  values are taken as equally spaced. A missing value between two numbers lies on the line
  through them; with \<^verbatim>\<open>limit_direction="both"\<close> a missing value before the first number
  takes the first number and one after the last number takes the last number; a column
  without a number stays as it is. Only float columns are interpolated: on a column of
  another type pandas 2 returns the values as they are.
\<close>

definition interpolate_linear :: "column \<Rightarrow> column" where
  "interpolate_linear xs =
     map (\<lambda>k. if is_num (xs ! k) then xs ! k
              else (let earlier = filter (\<lambda>i. is_num (xs ! i)) [0..<k];
                        later = filter (\<lambda>j. is_num (xs ! j)) [Suc k..<length xs]
                    in if earlier = [] then (if later = [] then NaN else xs ! hd later)
                       else if later = [] then xs ! last earlier
                       else (let i = last earlier; j = hd later
                             in Num (num (xs ! i)
                                  + (num (xs ! j) - num (xs ! i)) * (real k - real i) / (real j - real i)))))
       [0..<length xs]"

text \<open>The module constant \<^verbatim>\<open>additional_columns = ["site_id"]\<close>.\<close>

definition additional_columns :: "string list" where
  "additional_columns = [''site_id'']"

text \<open>
  The order in which \<^verbatim>\<open>groupby\<close> lists its groups: keys sorted, strings by code point.
\<close>

fun string_le :: "string \<Rightarrow> string \<Rightarrow> bool" where
  "string_le [] ys = True"
| "string_le (x # xs) [] = False"
| "string_le (x # xs) (y # ys) =
     ((of_char x :: nat) < of_char y \<or> (x = y \<and> string_le xs ys))"

fun cell_rank :: "cell \<Rightarrow> nat" where
  "cell_rank (Num x) = 0"
| "cell_rank (Time t) = 1"
| "cell_rank (Str s) = 2"
| "cell_rank NaN = 3"

fun cell_le :: "cell \<Rightarrow> cell \<Rightarrow> bool" where
  "cell_le (Num x) (Num y) = (x \<le> y)"
| "cell_le (Time x) (Time y) = (x \<le> y)"
| "cell_le (Str x) (Str y) = string_le x y"
| "cell_le a b = (cell_rank a \<le> cell_rank b)"

fun key_le :: "cell list \<Rightarrow> cell list \<Rightarrow> bool" where
  "key_le [] ys = True"
| "key_le (x # xs) [] = False"
| "key_le (x # xs) (y # ys) = (if x = y then key_le xs ys else cell_le x y)"

fun insert_key :: "cell list \<Rightarrow> cell list list \<Rightarrow> cell list list" where
  "insert_key k [] = [k]"
| "insert_key k (x # xs) = (if key_le k x then k # x # xs else x # insert_key k xs)"

definition sort_keys :: "cell list list \<Rightarrow> cell list list" where
  "sort_keys ks = foldr insert_key ks []"

text \<open>
  \<^verbatim>\<open>data.groupby(group_columns).resample("D", on="timestamp").mean(numeric_only=True)\<close>
  followed by \<^verbatim>\<open>reset_index\<close>: for every group, one row for each calendar day from the
  group's first day to its last, holding the mean of the numbers of each numeric column
  on that day (missing when the day has none).
\<close>

fun is_time :: "cell \<Rightarrow> bool" where
  "is_time (Time t) = True"
| "is_time c = False"

fun time_of :: "cell \<Rightarrow> int" where
  "time_of (Time t) = t"
| "time_of c = 0"

definition day_of :: "cell \<Rightarrow> int" where
  "day_of c = time_of c div 86400000000000"

definition mean_skipna :: "column \<Rightarrow> cell" where
  "mean_skipna c =
     (let v = filter is_num c
      in if v = [] then NaN else Num (sum_list (map num v) / real (length v)))"

definition resample_daily_mean :: "string list \<Rightarrow> frame \<Rightarrow> frame" where
  "resample_daily_mean group_columns data =
     (let keys = group_keys data group_columns;
          ts = col data ''timestamp'';
          groups = sort_keys (unique (filter (\<lambda>k. NaN \<notin> set k) keys));
          value_columns = filter (\<lambda>n. n \<notin> set group_columns \<and> n \<noteq> ''timestamp''
                                       \<and> is_numeric (col data n)) (columns data);
          out_rows = concat (map (\<lambda>k.
              (let rows = filter (\<lambda>i. is_time (ts ! i)) (group_rows keys k);
                   days = map (\<lambda>i. day_of (ts ! i)) rows
               in if rows = [] then []
                  else map (\<lambda>d. (k, d, filter (\<lambda>i. day_of (ts ! i) = d) rows))
                         [foldr min days (hd days) .. foldr max days (hd days)])) groups)
      in map (\<lambda>(m, n). (n, map (\<lambda>(k, d, rows). k ! m) out_rows)) (enumerate 0 group_columns)
         @ [(''timestamp'', map (\<lambda>(k, d, rows). Time (d * 86400000000000)) out_rows)]
         @ map (\<lambda>n. (n, map (\<lambda>(k, d, rows). mean_skipna (map ((!) (col data n)) rows)) out_rows))
             value_columns)"

text \<open>
  \<^verbatim>\<open>preprocess_data(data, data_frequency, job_type)\<close>. The assignments
  \<^verbatim>\<open>data["timestamp"] = ...\<close> and \<^verbatim>\<open>data["pm2_5"] = ...\<close> write into the caller's
  frame until \<open>data\<close> is bound to a new frame (by the daily resampling, or by the
  final \<^verbatim>\<open>dropna\<close>). The result is the caller's frame after the call, and the returned
  frame or the error raised. The daily bins start at midnight; a first bin that starts
  before the least time stamp \<^verbatim>\<open>datetime64[ns]\<close> can hold raises. After
  \<^verbatim>\<open>mean(numeric_only=True)\<close> a target column that is not numeric is gone and the
  second \<^verbatim>\<open>groupby(...)["pm2_5"]\<close> raises \<^verbatim>\<open>KeyError\<close>.
\<close>

definition interpolate_groups :: "string list \<Rightarrow> frame \<Rightarrow> column" where
  "interpolate_groups group_columns data =
     groupby_transform
       (if is_numeric (col data ''pm2_5'') then interpolate_linear else (\<lambda>x. x))
       (group_keys data group_columns) (col data ''pm2_5'')"

definition preprocess_data ::
  "(column \<Rightarrow> string \<Rightarrow> int option) \<Rightarrow> frame \<Rightarrow> string \<Rightarrow> string \<Rightarrow> frame \<times> (py_error + frame)" where
  "preprocess_data parse data data_frequency job_type =
     (if \<not> list_all (\<lambda>n. n \<in> set (columns data)) [''device_id'', ''pm2_5'', ''timestamp'']
      then (data, Inl (ValueError ''Provided dataframe missing necessary columns''))
      else (case to_datetime parse (col data ''timestamp'') of
              None \<Rightarrow> (data, Inl (ValueError
                         ''datetime conversion error, please provide timestamp in valid format''))
            | Some ts \<Rightarrow>
                (let data1 = set_col ''timestamp'' ts data;
                     group_columns = (if job_type = ''prediction''
                                      then [''device_id''] @ additional_columns
                                      else [''device_id''])
                 in if \<not> list_all (\<lambda>n. n \<in> set (columns data1)) group_columns
                    then (data1, Inl (KeyError ''site_id''))
                    else (let data2 = set_col ''pm2_5'' (interpolate_groups group_columns data1) data1
                          in if data_frequency = ''daily''
                             then (let data3 = resample_daily_mean group_columns data2;
                                       data4 = set_col ''pm2_5'' (interpolate_groups group_columns data3) data3
                                   in if \<not> list_all (\<lambda>c. is_time c \<longrightarrow> in_bounds (day_of c * 86400000000000)) ts
                                      then (data2, Inl OutOfBoundsDatetime)
                                      else if ''pm2_5'' \<notin> set (columns data3)
                                      then (data2, Inl (KeyError ''pm2_5''))
                                      else (data2, Inr (dropna [''pm2_5''] data4)))
                             else (let data4 = set_col ''pm2_5'' (interpolate_groups group_columns data2) data2
                                   in (data4, Inr (dropna [''pm2_5''] data4)))))))"

section \<open>Calendar attributes of a time stamp\<close>

text \<open>
  \<^verbatim>\<open>series.dt.year\<close>, \<^verbatim>\<open>.month\<close>, \<^verbatim>\<open>.day\<close>, \<^verbatim>\<open>.dayofweek\<close> (Monday is 0),
  \<^verbatim>\<open>.hour\<close> and \<^verbatim>\<open>.isocalendar().week\<close> of a time stamp in nanoseconds since
  1970-01-01 00:00, in the proleptic Gregorian calendar.
\<close>

definition civil :: "int \<Rightarrow> int \<times> int \<times> int" where
  "civil days =
     (let z = days + 719468;
          era = z div 146097;
          doe = z mod 146097;
          yoe = (doe - doe div 1460 + doe div 36524 - doe div 146096) div 365;
          doy = doe - (365 * yoe + yoe div 4 - yoe div 100);
          mp = (5 * doy + 2) div 153;
          d = doy - (153 * mp + 2) div 5 + 1;
          m = (if mp < 10 then mp + 3 else mp - 9)
      in ((if m \<le> 2 then yoe + era * 400 + 1 else yoe + era * 400), m, d))"

definition days_to_jan1 :: "int \<Rightarrow> int" where
  "days_to_jan1 y =
     (let y1 = y - 1; era = y1 div 400; yoe = y1 mod 400
      in era * 146097 + (yoe * 365 + yoe div 4 - yoe div 100 + 306) - 719468)"

definition dt_attribute :: "string \<Rightarrow> int \<Rightarrow> int" where
  "dt_attribute a t =
     (let days = t div 86400000000000; (y, m, d) = civil days; dow = (days + 3) mod 7
      in if a = ''year'' then y
         else if a = ''month'' then m
         else if a = ''day'' then d
         else if a = ''dayofweek'' then dow
         else if a = ''hour'' then (t mod 86400000000000) div 3600000000000
         else (let thursday = days - dow + 3; (iso_year, m', d') = civil thursday
               in (thursday - days_to_jan1 iso_year) div 7 + 1))"

definition dt :: "string \<Rightarrow> cell \<Rightarrow> cell" where
  "dt a c = (case c of Time t \<Rightarrow> Num (real_of_int (dt_attribute a t)) | _ \<Rightarrow> NaN)"

section \<open>Time, cyclic and location features\<close>

text \<open>
  \<^verbatim>\<open>get_time_features(df, freq)\<close>. The parsed time stamps are assigned to the caller's
  frame before the frequency is checked and before the frame is copied.
\<close>

definition time_attributes :: "string \<Rightarrow> string list" where
  "time_attributes freq =
     [''year'', ''month'', ''day'', ''dayofweek''] @ (if freq = ''hourly'' then [''hour''] else [])"

definition get_time_features ::
  "(column \<Rightarrow> string \<Rightarrow> int option) \<Rightarrow> frame \<Rightarrow> string \<Rightarrow> frame \<times> (py_error + frame)" where
  "get_time_features parse df freq =
     (if empty df then (df, Inl (ValueError ''Empty dataframe provided''))
      else if ''timestamp'' \<notin> set (columns df)
      then (df, Inl (ValueError ''Required columns missing''))
      else (case to_datetime parse (col df ''timestamp'') of
              None \<Rightarrow> (df, Inl (ValueError ''time data does not match format''))
            | Some ts \<Rightarrow>
                (let df' = set_col ''timestamp'' ts df
                 in if freq \<notin> set [''daily'', ''hourly'']
                    then (df', Inl (ValueError ''Invalid frequency''))
                    else (let df1 = foldl (\<lambda>d a. set_col a (map (dt a) (col d ''timestamp'')) d)
                                      df' (time_attributes freq)
                          in (df', Inr (set_col ''week'' (map (dt ''week'') (col df1 ''timestamp'')) df1))))))"

text \<open>
  \<^verbatim>\<open>get_cyclic_features(df, freq)\<close>: \<^verbatim>\<open>np.sin(2 * np.pi * df1[a] / m)\<close> and the cosine
  for every attribute \<open>a\<close> with its period \<open>m\<close>, then the attribute columns are dropped.
\<close>

definition cyclic :: "(real \<Rightarrow> real) \<Rightarrow> real \<Rightarrow> cell \<Rightarrow> cell" where
  "cyclic f m c = (case c of Num x \<Rightarrow> Num (f (2 * pi * x / m)) | _ \<Rightarrow> NaN)"

definition max_vals :: "string \<Rightarrow> real list" where
  "max_vals freq = [2023, 12, 30, 7] @ (if freq = ''hourly'' then [23] else [])"

definition add_cyclic :: "string \<Rightarrow> real \<Rightarrow> frame \<Rightarrow> frame" where
  "add_cyclic a m d =
     (let d1 = set_col (a @ ''_sin'') (map (cyclic sin m) (col d a)) d
      in set_col (a @ ''_cos'') (map (cyclic cos m) (col d1 a)) d1)"

definition get_cyclic_features ::
  "(column \<Rightarrow> string \<Rightarrow> int option) \<Rightarrow> frame \<Rightarrow> string \<Rightarrow> frame \<times> (py_error + frame)" where
  "get_cyclic_features parse df freq =
     (case get_time_features parse df freq of
        (df', Inl e) \<Rightarrow> (df', Inl e)
      | (df', Inr df1) \<Rightarrow>
          (let df2 = foldl (\<lambda>d (a, m). add_cyclic a m d) df1
                       (zip (time_attributes freq) (max_vals freq));
               df3 = add_cyclic ''week'' 52 df2
           in (df', Inr (drop_cols (time_attributes freq @ [''week'']) df3))))"

text \<open>
  \<^verbatim>\<open>get_location_features(df)\<close>: every assignment is made to the caller's frame, and the
  caller's frame is what the function returns. \<^verbatim>\<open>np.cos\<close> and \<^verbatim>\<open>np.sin\<close> raise
  \<^verbatim>\<open>TypeError\<close> on a column that is not numeric, after the time stamps were assigned.
\<close>

definition cell_op1 :: "(real \<Rightarrow> real) \<Rightarrow> cell \<Rightarrow> cell" where
  "cell_op1 f a = (case a of Num x \<Rightarrow> Num (f x) | _ \<Rightarrow> NaN)"

definition cell_op2 :: "(real \<Rightarrow> real \<Rightarrow> real) \<Rightarrow> cell \<Rightarrow> cell \<Rightarrow> cell" where
  "cell_op2 f a b = (case (a, b) of (Num x, Num y) \<Rightarrow> Num (f x y) | _ \<Rightarrow> NaN)"

definition get_location_features ::
  "(column \<Rightarrow> string \<Rightarrow> int option) \<Rightarrow> frame \<Rightarrow> frame \<times> (py_error + frame)" where
  "get_location_features parse df =
     (if empty df then (df, Inl (ValueError ''Empty dataframe provided''))
      else if ''timestamp'' \<notin> set (columns df)
      then (df, Inl (ValueError ''timestamp column is missing''))
      else if ''latitude'' \<notin> set (columns df)
      then (df, Inl (ValueError ''latitude column is missing''))
      else if ''longitude'' \<notin> set (columns df)
      then (df, Inl (ValueError ''longitude column is missing''))
      else (case to_datetime parse (col df ''timestamp'') of
              None \<Rightarrow> (df, Inl (ValueError ''time data does not match format''))
            | Some ts \<Rightarrow>
                (let df1 = set_col ''timestamp'' ts df;
                     df2 = set_col ''x_cord'' (map2 (cell_op2 (\<lambda>la lo. cos la * cos lo))
                                                (col df1 ''latitude'') (col df1 ''longitude'')) df1;
                     df3 = set_col ''y_cord'' (map2 (cell_op2 (\<lambda>la lo. cos la * sin lo))
                                                (col df2 ''latitude'') (col df2 ''longitude'')) df2;
                     df4 = set_col ''z_cord'' (map (cell_op1 sin) (col df3 ''latitude'')) df3
                 in if \<not> is_numeric (col df1 ''latitude'') \<or> \<not> is_numeric (col df1 ''longitude'')
                    then (df1, Inl TypeError)
                    else (df4, Inr df4))))"

section \<open>The temporal split of \<^verbatim>\<open>ForecastUtils.train_and_save_forecast_models\<close>\<close>

text \<open>
  Lines 243 to 267 of the source: rows without a device are dropped from the caller's
  frame, the time stamps are parsed, and for every device, in order of first appearance,
  the distinct values of \<^verbatim>\<open>timestamp.dt.month\<close> (first-seen order) are cut into
  \<^verbatim>\<open>months[:8]\<close>, \<^verbatim>\<open>months[8:9]\<close> and \<^verbatim>\<open>months[9:]\<close>; the device's rows go to the
  train, validation or test table by \<^verbatim>\<open>isin\<close>, which matches a missing month with a
  missing month.
\<close>

definition device_rows :: "frame \<Rightarrow> cell \<Rightarrow> frame" where
  "device_rows training_data device =
     filter_rows (\<lambda>i. cell_eq (col training_data ''device_id'' ! i) device) training_data"

definition row_months :: "frame \<Rightarrow> cell list" where
  "row_months device_df = map (dt ''month'') (col device_df ''timestamp'')"

definition train_months :: "cell list \<Rightarrow> cell list" where
  "train_months months = take 8 months"

definition val_months :: "cell list \<Rightarrow> cell list" where
  "val_months months = take (9 - 8) (drop 8 months)"

definition test_months :: "cell list \<Rightarrow> cell list" where
  "test_months months = drop 9 months"

definition isin_rows :: "frame \<Rightarrow> cell list \<Rightarrow> frame" where
  "isin_rows device_df months = filter_rows (\<lambda>i. row_months device_df ! i \<in> set months) device_df"

definition split_device :: "frame \<Rightarrow> cell \<Rightarrow> frame \<times> frame \<times> frame" where
  "split_device training_data device =
     (let device_df = device_rows training_data device;
          months = unique (row_months device_df)
      in (isin_rows device_df (train_months months),
          isin_rows device_df (val_months months),
          isin_rows device_df (test_months months)))"

definition temporal_split ::
  "(column \<Rightarrow> string \<Rightarrow> int option) \<Rightarrow> frame \<Rightarrow> frame \<times> (py_error + frame \<times> frame \<times> frame)" where
  "temporal_split parse training_data0 =
     (if ''device_id'' \<notin> set (columns training_data0)
      then (training_data0, Inl (KeyError ''device_id''))
      else (let training_data1 = dropna [''device_id''] training_data0
            in if ''timestamp'' \<notin> set (columns training_data1)
               then (training_data1, Inl (KeyError ''timestamp''))
               else (case to_datetime parse (col training_data1 ''timestamp'') of
                       None \<Rightarrow> (training_data1, Inl (ValueError ''time data does not match format''))
                     | Some ts \<Rightarrow>
                         (let training_data = set_col ''timestamp'' ts training_data1
                          in (training_data,
                              Inr (foldl (\<lambda>(train_data, validation_data, test_data) device.
                                            (let (train_df, val_df, test_df) = split_device training_data device
                                             in (pd_concat train_data train_df,
                                                 pd_concat validation_data val_df,
                                                 pd_concat test_data test_df)))
                                     ([], [], [])
                                     (unique (col training_data ''device_id''))))))))"

section \<open>The recursive forecast engine: \<^verbatim>\<open>ForecastUtils.generate_forecasts\<close>\<close>

text \<open>
  \<^verbatim>\<open>df.iloc[a:, :]\<close> for an integer \<open>a\<close>: a negative \<open>a\<close> counts from the end, and
  \<open>-0\<close> is \<open>0\<close>.
\<close>

definition iloc_rows_from :: "int \<Rightarrow> frame \<Rightarrow> frame" where
  "iloc_rows_from a df =
     (let n = nrows df;
          start = (if a < 0 then nat (max 0 (int n + a)) else min n (nat a))
      in take_rows [start..<n] df)"

text \<open>\<^verbatim>\<open>df.iloc[-1, df.columns.get_loc(name)] = v\<close> and \<^verbatim>\<open>df.loc[df.index[-1], name] = v\<close>.\<close>

definition set_last :: "string \<Rightarrow> cell \<Rightarrow> frame \<Rightarrow> frame" where
  "set_last name v df = set_col name ((col df name)[nrows df - 1 := v]) df"

text \<open>
  A time stamp plus a \<^verbatim>\<open>timedelta\<close> of \<open>d\<close> nanoseconds: \<^verbatim>\<open>NaT\<close> stays
  \<^verbatim>\<open>NaT\<close>, and a sum outside the 64-bit range raises.
\<close>

definition add_timedelta :: "int \<Rightarrow> cell \<Rightarrow> py_error + cell" where
  "add_timedelta d c =
     (case c of
        Time t \<Rightarrow> if in_bounds (t + d) then Inr (Time (t + d)) else Inl OutOfBoundsDatetime
      | NaN \<Rightarrow> Inr NaN
      | _ \<Rightarrow> Inl TypeError)"

definition forecast_lags :: "string \<Rightarrow> nat list \<Rightarrow> frame \<Rightarrow> frame" where
  "forecast_lags unit shifts1 df_tmp =
     foldl (\<lambda>d s. set_col (lag_name s unit) (shift s (col d ''pm2_5'')) d) df_tmp shifts1"

definition forecast_rolls ::
  "(string \<Rightarrow> nat \<Rightarrow> column \<Rightarrow> nat \<Rightarrow> real option) \<Rightarrow> string \<Rightarrow> nat list \<Rightarrow> string list \<Rightarrow> frame \<Rightarrow> frame \<Rightarrow> frame" where
  "forecast_rolls agg unit shifts2 functions df_tmp_no_ts df_tmp =
     foldl (\<lambda>d (s, f). set_col (roll_name f s unit)
                          (rolling s (agg f s) (shift 1 (col df_tmp_no_ts ''pm2_5''))) d)
       df_tmp (concat (map (\<lambda>s. map (\<lambda>f. (s, f)) functions) shifts2))"

definition excluded_columns :: "string list" where
  "excluded_columns = [''device_id'', ''site_id'', ''pm2_5'', ''timestamp'', ''latitude'', ''longitude'']"

text \<open>
  One pass of the loop of \<^verbatim>\<open>get_forecasts\<close>, in three parts. The last row is appended
  once more. Then the frequency branch. The hourly branch writes the time stamp of the row
  before the last plus one hour into the last row with \<^verbatim>\<open>iloc\<close>. The daily branch
  adds one day to \<^verbatim>\<open>df_tmp.tail(1)["timestamp"]\<close> in place: the series is a view of the
  rows of \<^verbatim>\<open>df_tmp\<close>, so the last row of \<^verbatim>\<open>df_tmp\<close> gets its own time stamp plus one
  day. Both branches then assign the lags of \<^verbatim>\<open>pm2_5\<close> and the rolling statistics;
  these are computed for every column of \<^verbatim>\<open>df_tmp_no_ts\<close> (pandas raises
  \<^verbatim>\<open>DataError\<close> when one of them is not numeric) and the column \<^verbatim>\<open>pm2_5\<close> of the
  result is kept. The cyclic features are assigned to \<^verbatim>\<open>df_tmp.tail(1)[...]\<close>:
  \<^verbatim>\<open>tail(1)\<close> is a new frame and the assignment replaces a column of that frame, so
  \<^verbatim>\<open>df_tmp\<close> keeps its cells (the module switches the chained-assignment warning off in
  line 22). Last, the prediction is written into the last row with \<^verbatim>\<open>loc\<close>. The
  model's \<^verbatim>\<open>predict\<close> is the parameter \<open>predict\<close>, applied to the cells of the last row
  outside \<^verbatim>\<open>excluded_columns\<close>.

  \<^verbatim>\<open>get_forecasts\<close> is a nested function and its caller passes a frame whose time stamps
  were converted in line 441. On a frame whose \<^verbatim>\<open>timestamp\<close> column is not of that
  type the pass raises (the addition of the \<^verbatim>\<open>timedelta\<close> or the \<^verbatim>\<open>.dt\<close> accessor
  does), which is the error \<open>TypeError\<close> here.
\<close>

definition recompute_lag_roll ::
  "(string \<Rightarrow> nat \<Rightarrow> column \<Rightarrow> nat \<Rightarrow> real option) \<Rightarrow> string \<Rightarrow> nat list \<Rightarrow> nat list \<Rightarrow> string list
     \<Rightarrow> frame \<Rightarrow> frame \<Rightarrow> py_error + frame" where
  "recompute_lag_roll agg unit shifts1 shifts2 functions df_tmp_no_ts df_tmp =
     (if ''pm2_5'' \<notin> set (columns df_tmp) then Inl (KeyError ''pm2_5'')
      else if \<not> list_all (\<lambda>(n, c). is_numeric c) df_tmp_no_ts then Inl DataError
      else Inr (forecast_rolls agg unit shifts2 functions df_tmp_no_ts
                  (forecast_lags unit shifts1 df_tmp)))"

definition recompute_features ::
  "(string \<Rightarrow> nat \<Rightarrow> column \<Rightarrow> nat \<Rightarrow> real option) \<Rightarrow> string \<Rightarrow> frame \<Rightarrow> py_error + frame" where
  "recompute_features agg frequency df_tmp =
     (if \<not> list_all (\<lambda>n. n \<in> set (columns df_tmp)) [''timestamp'', ''device_id'', ''site_id'']
      then Inl (KeyError ''timestamp, device_id, site_id'')
      else if \<not> list_all (\<lambda>c. c = NaN \<or> is_time c) (col df_tmp ''timestamp'')
      then Inl TypeError
      else (let df_tmp_no_ts = drop_cols [''timestamp'', ''device_id'', ''site_id''] df_tmp
            in if frequency = ''daily''
               then (if nrows df_tmp = 0
                     then recompute_lag_roll agg ''day'' [1, 2, 3, 7] [2, 3, 7]
                            [''mean'', ''std'', ''max'', ''min''] df_tmp_no_ts df_tmp
                     else (case add_timedelta 86400000000000
                                  (col df_tmp ''timestamp'' ! (nrows df_tmp - 1)) of
                             Inl e \<Rightarrow> Inl e
                           | Inr ts \<Rightarrow>
                               recompute_lag_roll agg ''day'' [1, 2, 3, 7] [2, 3, 7]
                                 [''mean'', ''std'', ''max'', ''min''] df_tmp_no_ts
                                 (set_last ''timestamp'' ts df_tmp)))
               else if frequency = ''hourly''
               then (if nrows df_tmp < 2 then Inl IndexError
                     else (case add_timedelta 3600000000000
                                  (col df_tmp ''timestamp'' ! (nrows df_tmp - 2)) of
                             Inl e \<Rightarrow> Inl e
                           | Inr ts \<Rightarrow>
                               recompute_lag_roll agg ''hour'' [1, 2, 6, 12] [3, 6, 12, 24]
                                 [''mean'', ''std'', ''median'', ''skew''] df_tmp_no_ts
                                 (set_last ''timestamp'' ts df_tmp)))
               else Inr df_tmp))"

definition write_prediction :: "(cell list \<Rightarrow> real) \<Rightarrow> frame \<Rightarrow> py_error + frame" where
  "write_prediction predict df_tmp =
     (if \<not> list_all (\<lambda>n. n \<in> set (columns df_tmp)) excluded_columns
      then Inl (KeyError ''excluded_columns'')
      else if nrows df_tmp = 0 then Inl (ValueError ''no row to predict from'')
      else Inr (set_last ''pm2_5''
                  (Num (predict (map (\<lambda>(n, c). last c) (drop_cols excluded_columns df_tmp))))
                  df_tmp))"

definition forecast_step ::
  "(cell list \<Rightarrow> real) \<Rightarrow> (string \<Rightarrow> nat \<Rightarrow> column \<Rightarrow> nat \<Rightarrow> real option) \<Rightarrow> string \<Rightarrow> frame \<Rightarrow> py_error + frame" where
  "forecast_step predict agg frequency df_tmp =
     (case recompute_features agg frequency (pd_concat df_tmp (iloc_rows_from (- 1) df_tmp)) of
        Inl e \<Rightarrow> Inl e
      | Inr df_tmp' \<Rightarrow> write_prediction predict df_tmp')"

fun forecast_loop ::
  "(cell list \<Rightarrow> real) \<Rightarrow> (string \<Rightarrow> nat \<Rightarrow> column \<Rightarrow> nat \<Rightarrow> real option) \<Rightarrow> string \<Rightarrow> nat \<Rightarrow> frame \<Rightarrow> py_error + frame" where
  "forecast_loop predict agg frequency 0 df_tmp = Inr df_tmp"
| "forecast_loop predict agg frequency (Suc n) df_tmp =
     (case forecast_step predict agg frequency df_tmp of
        Inl e \<Rightarrow> Inl e
      | Inr df_tmp' \<Rightarrow> forecast_loop predict agg frequency n df_tmp')"

text \<open>
  \<^verbatim>\<open>get_forecasts(df_tmp, forecast_model, frequency, horizon)\<close>:
  \<^verbatim>\<open>for i in range(int(horizon))\<close>, then \<^verbatim>\<open>df_tmp.iloc[-int(horizon):, :]\<close>.
\<close>

definition get_forecasts ::
  "(cell list \<Rightarrow> real) \<Rightarrow> (string \<Rightarrow> nat \<Rightarrow> column \<Rightarrow> nat \<Rightarrow> real option) \<Rightarrow> frame \<Rightarrow> string \<Rightarrow> int \<Rightarrow> py_error + frame" where
  "get_forecasts predict agg df_tmp frequency horizon =
     (case forecast_loop predict agg frequency (nat horizon) df_tmp of
        Inl e \<Rightarrow> Inl e
      | Inr df \<Rightarrow> Inr (iloc_rows_from (- horizon) df))"

text \<open>\<^verbatim>\<open>str.strip()\<close> of a column name.\<close>

definition is_space :: "char \<Rightarrow> bool" where
  "is_space c = (c \<in> set [CHR '' '', CHR 0x09, CHR 0x0A, CHR 0x0B, CHR 0x0C, CHR 0x0D])"

definition py_strip :: "string \<Rightarrow> string" where
  "py_strip s = rev (dropWhile is_space (rev (dropWhile is_space s)))"

definition select_columns :: "string list \<Rightarrow> frame \<Rightarrow> frame" where
  "select_columns names df = map (\<lambda>n. (n, col df n)) names"

text \<open>
  \<^verbatim>\<open>generate_forecasts(data, project_name, bucket_name, frequency)\<close>. The two configured
  horizons are parameters; the stored artifact is the model's \<^verbatim>\<open>predict\<close>.
\<close>

definition generate_forecasts ::
  "(column \<Rightarrow> string \<Rightarrow> int option) \<Rightarrow> (string \<Rightarrow> nat \<Rightarrow> column \<Rightarrow> nat \<Rightarrow> real option) \<Rightarrow> int \<Rightarrow> int
     \<Rightarrow> frame \<Rightarrow> (cell list \<Rightarrow> real) gcs \<Rightarrow> string \<Rightarrow> string \<Rightarrow> py_error + frame" where
  "generate_forecasts parse agg hourly_forecast_horizon daily_forecast_horizon
       data0 fs bucket_name frequency =
     (if ''device_id'' \<notin> set (columns data0) then Inl (KeyError ''device_id'')
      else (let data1 = dropna [''device_id''] data0
            in if ''timestamp'' \<notin> set (columns data1) then Inl (KeyError ''timestamp'')
               else (case to_datetime parse (col data1 ''timestamp'') of
                 None \<Rightarrow> Inl (ValueError ''time data does not match format'')
               | Some ts \<Rightarrow>
                  (let data = map (\<lambda>(n, c). (py_strip n, c)) (set_col ''timestamp'' ts data1)
                   in case get_trained_model_from_gcs fs bucket_name (frequency @ ''_forecast_model.pkl'') of
                        Inl e \<Rightarrow> Inl e
                      | Inr forecast_model \<Rightarrow>
                         (let df_tmp = data;
                              horizon = (if frequency = ''hourly'' then hourly_forecast_horizon
                                         else daily_forecast_horizon)
                          in case foldl (\<lambda>acc device.
                                     case acc of
                                       Inl e \<Rightarrow> Inl e
                                     | Inr forecasts \<Rightarrow>
                                        (case get_forecasts forecast_model agg
                                                (device_rows df_tmp device) frequency horizon of
                                           Inl e \<Rightarrow> Inl e
                                         | Inr device_forecasts \<Rightarrow> Inr (pd_concat forecasts device_forecasts)))
                                   (Inr []) (unique (col df_tmp ''device_id'')) of
                               Inl e \<Rightarrow> Inl e
                             | Inr forecasts \<Rightarrow>
                                 if \<not> list_all (\<lambda>n. n \<in> set (columns forecasts))
                                        [''device_id'', ''site_id'', ''timestamp'', ''pm2_5'']
                                 then Inl (KeyError ''pm2_5'')
                                 else Inr (select_columns
                                             [''device_id'', ''site_id'', ''timestamp'', ''pm2_5'']
                                             forecasts))))))"

section \<open>The forecast sink: \<^verbatim>\<open>ForecastUtils.save_forecasts_to_mongo\<close>\<close>








section \<open>Notions used in the statements\<close>

text \<open>A frame is rectangular: every column has as many cells as the frame has rows.\<close>

definition rect :: "frame \<Rightarrow> bool" where
  "rect df = list_all (\<lambda>(n, c). length c = nrows df) df"

text \<open>The rows of a device, in row order, and the number of its rows before row \<open>t\<close>.\<close>

definition device_series :: "frame \<Rightarrow> cell \<Rightarrow> nat list" where
  "device_series df d = filter (\<lambda>j. col df ''device_id'' ! j = d) [0..<nrows df]"

definition rows_before :: "frame \<Rightarrow> nat \<Rightarrow> nat" where
  "rows_before df t =
     length (filter (\<lambda>j. col df ''device_id'' ! j = col df ''device_id'' ! t) [0..<t])"

text \<open>
  A small frame with two devices, a parser that knows no date string, and the mean of the
  window as the rolling statistic.
\<close>

definition example_frame :: frame where
  "example_frame =
     [(''device_id'', [Str ''a'', Str ''b'', Str ''a'', Str ''a'', Str ''a'']),
      (''site_id'', [Str ''s'', Str ''s'', Str ''t'', Str ''s'', Str ''s'']),
      (''timestamp'', [Time 0, Time 0, Time 3600000000000, Time 7200000000000, Time 10800000000000]),
      (''pm2_5'', [Num 1, Num 10, Num 2, Num 3, Num 4]),
      (''latitude'', [Num 0, Num 0, Num 0, Num 0, Num 0]),
      (''longitude'', [Num 0, Num 0, Num 0, Num 0, Num 0])]"


text \<open>
  Two frames with the same column names and rows that differ at most in the columns
  named in \<open>S\<close>.
\<close>

definition same_except :: "string set \<Rightarrow> frame \<Rightarrow> frame \<Rightarrow> bool" where
  "same_except S a b =
     (columns a = columns b \<and> nrows a = nrows b \<and> (\<forall>n. n \<notin> S \<longrightarrow> col a n = col b n))"

text \<open>
  A frame whose time stamps are strings and whose second target value is missing, and a
  parser that knows these two strings.
\<close>

definition string_frame :: frame where
  "string_frame =
     [(''device_id'', [Str ''a'', Str ''a'']),
      (''site_id'', [Str ''s'', Str ''s'']),
      (''timestamp'', [Str ''1970-01-01 00:00'', Str ''1970-01-01 01:00'']),
      (''pm2_5'', [Num 1, NaN]),
      (''latitude'', [Num 0, Num 0]),
      (''longitude'', [Num 0, Num 0])]"

definition example_parse :: "column \<Rightarrow> string \<Rightarrow> int option" where
  "example_parse c s =
     (if s = ''1970-01-01 00:00'' then Some 0
      else if s = ''1970-01-01 01:00'' then Some 3600000000000 else None)"


definition no_parse :: "column \<Rightarrow> string \<Rightarrow> int option" where
  "no_parse c s = None"

definition window_mean :: "string \<Rightarrow> nat \<Rightarrow> column \<Rightarrow> nat \<Rightarrow> real option" where
  "window_mean f s xs t = Some (sum_list (map (\<lambda>j. num (xs ! j)) [Suc t - s..<Suc t]) / real s)"

text \<open>
  The columns the loops of \<^verbatim>\<open>get_lag_and_roll_features\<close> compute, read off the frame
  the loops start from, and a frame after a list of column assignments.
\<close>

definition lag_col :: "frame \<Rightarrow> string \<Rightarrow> nat \<Rightarrow> column" where
  "lag_col df target s = groupby_transform (shift s) (group_keys df [''device_id'']) (col df target)"

definition roll_col :: "(string \<Rightarrow> nat \<Rightarrow> column \<Rightarrow> nat \<Rightarrow> real option) \<Rightarrow> frame \<Rightarrow> string \<Rightarrow> string \<Rightarrow> nat \<Rightarrow> column" where
  "roll_col agg df target f s = rolling s (agg f s) (lag_col df target 1)"

definition assign_all :: "frame \<Rightarrow> (string \<times> column) list \<Rightarrow> frame" where
  "assign_all d nvs = foldl (\<lambda>d (n, v). set_col n v d) d nvs"

definition lag_assignments :: "frame \<Rightarrow> string \<Rightarrow> string \<Rightarrow> nat list \<Rightarrow> (string \<times> column) list" where
  "lag_assignments df target unit shifts = map (\<lambda>s. (lag_name s unit, lag_col df target s)) shifts"

definition roll_assignments ::
  "(string \<Rightarrow> nat \<Rightarrow> column \<Rightarrow> nat \<Rightarrow> real option) \<Rightarrow> frame \<Rightarrow> string \<Rightarrow> string \<Rightarrow> nat list \<Rightarrow> string list \<Rightarrow> (string \<times> column) list" where
  "roll_assignments agg df target unit shifts functions =
     map (\<lambda>(s, f). (roll_name f s unit, roll_col agg df target f s))
       (concat (map (\<lambda>s. map (\<lambda>f. (s, f)) functions) shifts))"

definition feature_assignments ::
  "(string \<Rightarrow> nat \<Rightarrow> column \<Rightarrow> nat \<Rightarrow> real option) \<Rightarrow> frame \<Rightarrow> string \<Rightarrow> string \<Rightarrow> (string \<times> column) list" where
  "feature_assignments agg df target freq =
     (if freq = ''daily''
      then lag_assignments df target ''day'' [1, 2, 3, 7]
           @ roll_assignments agg df target ''day'' [2, 3, 7] [''mean'', ''std'', ''max'', ''min'']
      else lag_assignments df target ''hour'' [1, 2, 6, 12]
           @ roll_assignments agg df target ''hour'' [3, 6, 12, 24] [''mean'', ''std'', ''median'', ''skew''])"

text \<open>
  The columns one pass of the forecast loop assigns, read off the target column \<open>pm\<close> of
  the frame with the appended row.
\<close>

definition forecast_assignments ::
  "(string \<Rightarrow> nat \<Rightarrow> column \<Rightarrow> nat \<Rightarrow> real option) \<Rightarrow> column \<Rightarrow> string \<Rightarrow> (string \<times> column) list" where
  "forecast_assignments agg pm frequency =
     (if frequency = ''daily''
      then map (\<lambda>s. (lag_name s ''day'', shift s pm)) [1, 2, 3, 7]
           @ map (\<lambda>(s, f). (roll_name f s ''day'', rolling s (agg f s) (shift 1 pm)))
               (concat (map (\<lambda>s. map (\<lambda>f. (s, f)) [''mean'', ''std'', ''max'', ''min'']) [2, 3, 7]))
      else map (\<lambda>s. (lag_name s ''hour'', shift s pm)) [1, 2, 6, 12]
           @ map (\<lambda>(s, f). (roll_name f s ''hour'', rolling s (agg f s) (shift 1 pm)))
               (concat (map (\<lambda>s. map (\<lambda>f. (s, f)) [''mean'', ''std'', ''median'', ''skew''])
                          [3, 6, 12, 24])))"

text \<open>The names of the columns \<^verbatim>\<open>get_lag_and_roll_features\<close> assigns.\<close>

definition added_columns :: "string \<Rightarrow> string list" where
  "added_columns freq =
     (if freq = ''daily''
      then map (\<lambda>s. lag_name s ''day'') [1, 2, 3, 7]
           @ concat (map (\<lambda>s. map (\<lambda>f. roll_name f s ''day'') [''mean'', ''std'', ''max'', ''min'']) [2, 3, 7])
      else map (\<lambda>s. lag_name s ''hour'') [1, 2, 6, 12]
           @ concat (map (\<lambda>s. map (\<lambda>f. roll_name f s ''hour'') [''mean'', ''std'', ''median'', ''skew''])
                       [3, 6, 12, 24]))"

section \<open>Frames: basic facts\<close>

lemma col_set_col: "col (set_col n c d) m = (if m = n then c else col d m)"
  by (simp add: col_def set_col_def update_conv')

lemma columns_set_col:
  "columns (set_col n c d) = (if n \<in> set (columns d) then columns d else columns d @ [n])"
  by (simp add: columns_def set_col_def update_keys)  

lemma set_columns_set_col: "set (columns (set_col n c d)) = insert n (set (columns d))"
  by (auto simp: columns_set_col)

lemma nrows_set_col: "length c = nrows d \<Longrightarrow> nrows (set_col n c d) = nrows d"
  by (cases d) (auto simp: nrows_def set_col_def)

lemma rect_col_length: "rect df \<Longrightarrow> n \<in> set (columns df) \<Longrightarrow> length (col df n) = nrows df"
proof -
  assume r: "rect df" and n: "n \<in> set (columns df)"
  then obtain c where c: "map_of df n = Some c"
    by (metis columns_def domD dom_map_of_conv_image_fst list.set_map) 
  then have "(n, c) \<in> set df" by (rule map_of_SomeD)
  then have "length c = nrows df" using r by (auto simp: rect_def list_all_iff)
  then show ?thesis using c by (simp add: col_def)
qed

lemma rect_set_col: "rect d \<Longrightarrow> length c = nrows d \<Longrightarrow> rect (set_col n c d)"
proof -
  assume r: "rect d" and l: "length c = nrows d"
  have "set (AList.update n c d) \<subseteq> insert (n, c) (set d)"
    by (induction d) auto
  then show ?thesis using r l nrows_set_col [OF l, of n]
    by (auto simp: rect_def list_all_iff set_col_def)
qed

lemma length_to_datetime: "to_datetime parse c = Some ts \<Longrightarrow> length ts = length c"
  by (auto simp: to_datetime_def split: if_splits)

lemma length_group_keys: "length (group_keys d ns) = nrows d"
  by (simp add: group_keys_def)

lemma length_groupby_transform: "length (groupby_transform f keys vals) = length keys"
  by (simp add: groupby_transform_def)

lemma length_rolling: "length (rolling s stat xs) = length xs"
  by (simp add: rolling_def)

lemma length_shift: "length (shift s xs) = length xs"
  by (simp add: shift_def)

lemma group_keys_set_col:
  "length c = nrows d \<Longrightarrow> n \<notin> set ns \<Longrightarrow> group_keys (set_col n c d) ns = group_keys d ns"
  by (auto simp: group_keys_def nrows_set_col col_set_col)

lemma str_nat_vals:
  "str_nat 1 = ''1''" "str_nat (Suc 0) = ''1''" "str_nat 2 = ''2''" "str_nat 3 = ''3''" "str_nat 6 = ''6''"
  "str_nat 7 = ''7''" "str_nat 12 = ''12''" "str_nat 24 = ''24''"
  by (simp_all add: str_nat.simps)

lemma lag_name_neq [simp]: "lag_name s unit \<noteq> ''device_id''" "lag_name s unit \<noteq> ''timestamp''"
  "lag_name s unit \<noteq> ''site_id''"
  by (simp_all add: lag_name_def)

lemma roll_name_neq [simp]: "roll_name f s unit \<noteq> ''device_id''" "roll_name f s unit \<noteq> ''timestamp''"
  "roll_name f s unit \<noteq> ''site_id''"
  by (simp_all add: roll_name_def)

lemma lag_col_cong:
  "group_keys d [''device_id''] = group_keys df [''device_id''] \<Longrightarrow> col d target = col df target
     \<Longrightarrow> lag_col d target s = lag_col df target s"
  by (simp add: lag_col_def)

lemma length_lag_col: "length (lag_col df target s) = nrows df"
  by (simp add: lag_col_def length_groupby_transform length_group_keys)

lemma add_lag_features_eq_aux:
  assumes "target \<notin> (\<lambda>s. lag_name s unit) ` set shifts"
    and "group_keys d [''device_id''] = group_keys df [''device_id'']"
    and "col d target = col df target" and "nrows d = nrows df"
  shows "foldl (\<lambda>d s. set_col (lag_name s unit)
                     (groupby_transform (shift s) (group_keys d [''device_id'']) (col d target)) d) d shifts
         = foldl (\<lambda>d s. set_col (lag_name s unit) (lag_col df target s) d) d shifts"
  using assms
proof (induction shifts arbitrary: d)
  case Nil
  then show ?case by simp
next
  case (Cons s shifts)
  let ?d = "set_col (lag_name s unit) (lag_col df target s) d"
  have step: "groupby_transform (shift s) (group_keys d [''device_id'']) (col d target) = lag_col df target s"
    using Cons.prems by (simp add: lag_col_def)
  have len: "length (lag_col df target s) = nrows d"
    using Cons.prems by (simp add: length_lag_col)
  have "group_keys ?d [''device_id''] = group_keys df [''device_id'']"
    using Cons.prems len by (simp add: group_keys_set_col)
  moreover have "col ?d target = col df target"
    using Cons.prems by (auto simp: col_set_col)
  moreover have "nrows ?d = nrows df"
    using Cons.prems len by (simp add: nrows_set_col)
  moreover have "target \<notin> (\<lambda>s. lag_name s unit) ` set shifts"
    using Cons.prems by auto
  ultimately show ?case using Cons.IH [of ?d] step by simp
qed

lemma add_lag_features_eq:
  assumes "target \<notin> (\<lambda>s. lag_name s unit) ` set shifts"
  shows "add_lag_features target unit shifts df
         = foldl (\<lambda>d s. set_col (lag_name s unit) (lag_col df target s) d) df shifts"
  unfolding add_lag_features_def using assms by (rule add_lag_features_eq_aux) simp_all

lemma assign_all_Nil [simp]: "assign_all d [] = d"
  by (simp add: assign_all_def)

lemma assign_all_Cons [simp]: "assign_all d ((n, v) # nvs) = assign_all (set_col n v d) nvs"
  by (simp add: assign_all_def)

lemma assign_all_append: "assign_all d (xs @ ys) = assign_all (assign_all d xs) ys"
  by (simp add: assign_all_def)

lemma foldl_set_col_assign_all:
  "foldl (\<lambda>d x. set_col (name x) (val x) d) d xs = assign_all d (map (\<lambda>x. (name x, val x)) xs)"
  by (induction xs arbitrary: d) simp_all

lemma col_assign_all:
  "col (assign_all d nvs) m = (case map_of (rev nvs) m of Some v \<Rightarrow> v | None \<Rightarrow> col d m)"
  by (induction nvs arbitrary: d) (auto simp: col_set_col split: option.splits)

lemma col_assign_all_distinct:
  assumes "distinct (map fst nvs)" "(m, v) \<in> set nvs"
  shows "col (assign_all d nvs) m = v"
proof -
  have "distinct (map fst (rev nvs))" using assms(1) by (simp add: rev_map [symmetric])
  then have "map_of (rev nvs) m = Some v" using assms(2) by (intro map_of_is_SomeI) auto
  then show ?thesis by (simp add: col_assign_all)
qed

lemma col_assign_all_other:
  assumes "m \<notin> fst ` set nvs"
  shows "col (assign_all d nvs) m = col d m"
proof -
  have "map_of (rev nvs) m = None" using assms by (simp add: map_of_eq_None_iff)
  then show ?thesis by (simp add: col_assign_all)
qed

lemma columns_assign_all:
  "set (columns (assign_all d nvs)) = set (columns d) \<union> fst ` set nvs"
  by (induction nvs arbitrary: d) (force simp: set_columns_set_col)+

lemma nrows_assign_all:
  assumes "\<forall>(n, v) \<in> set nvs. length v = nrows d"
  shows "nrows (assign_all d nvs) = nrows d"
  using assms
proof (induction nvs arbitrary: d)
  case Nil
  then show ?case by simp
next
  case (Cons a nvs)
  obtain n v where a: "a = (n, v)" by (cases a)
  have "length v = nrows d" using Cons.prems a by simp
  then have n: "nrows (set_col n v d) = nrows d" by (simp add: nrows_set_col)
  then have "\<forall>(n', v') \<in> set nvs. length v' = nrows (set_col n v d)" using Cons.prems by simp
  then have "nrows (assign_all (set_col n v d) nvs) = nrows (set_col n v d)" by (rule Cons.IH)
  then show ?case using n a by simp
qed

lemma rect_assign_all:
  assumes "rect d" "\<forall>(n, v) \<in> set nvs. length v = nrows d"
  shows "rect (assign_all d nvs)"
  using assms
proof (induction nvs arbitrary: d)
  case Nil
  then show ?case by simp
next
  case (Cons a nvs)
  obtain n v where a: "a = (n, v)" by (cases a)
  have "length v = nrows d" using Cons.prems(2) a by simp
  then have n: "nrows (set_col n v d) = nrows d" "rect (set_col n v d)"
    using Cons.prems(1) by (simp_all add: nrows_set_col rect_set_col)
  then have "\<forall>(n', v') \<in> set nvs. length v' = nrows (set_col n v d)" using Cons.prems by simp
  then have "rect (assign_all (set_col n v d) nvs)" using n(2) by (intro Cons.IH)
  then show ?case using a by simp
qed

lemma group_keys_assign_all:
  assumes "\<forall>(n, v) \<in> set nvs. length v = nrows d" "set ns \<inter> fst ` set nvs = {}"
  shows "group_keys (assign_all d nvs) ns = group_keys d ns"
proof -
  have "\<And>n. n \<in> set ns \<Longrightarrow> col (assign_all d nvs) n = col d n"
    using assms(2) by (intro col_assign_all_other) auto
  then show ?thesis using nrows_assign_all [OF assms(1)] by (simp add: group_keys_def)
qed

lemma add_lag_features_closed:
  assumes "target \<notin> fst ` set (lag_assignments df target unit shifts)"
  shows "add_lag_features target unit shifts df = assign_all df (lag_assignments df target unit shifts)"
proof -
  have "target \<notin> (\<lambda>s. lag_name s unit) ` set shifts"
    using assms by (auto simp: lag_assignments_def image_iff)
  then show ?thesis
    by (simp add: add_lag_features_eq foldl_set_col_assign_all lag_assignments_def)
qed

lemma add_roll_features_eq_aux:
  assumes "target \<notin> (\<lambda>(s, f). roll_name f s unit) ` set ps"
    and "group_keys d [''device_id''] = group_keys df [''device_id'']"
    and "col d target = col df target" and "nrows d = nrows df"
  shows "foldl (\<lambda>d (s, f). set_col (roll_name f s unit)
                     (rolling s (agg f s)
                        (groupby_transform (shift 1) (group_keys d [''device_id'']) (col d target))) d) d ps
         = foldl (\<lambda>d (s, f). set_col (roll_name f s unit) (roll_col agg df target f s) d) d ps"
  using assms
proof (induction ps arbitrary: d)
  case Nil
  then show ?case by simp
next
  case (Cons a ps)
  obtain s f where a: "a = (s, f)" by (cases a)
  let ?d = "set_col (roll_name f s unit) (roll_col agg df target f s) d"
  have step: "rolling s (agg f s) (groupby_transform (shift 1) (group_keys d [''device_id'']) (col d target))
                = roll_col agg df target f s"
    using Cons.prems by (simp add: roll_col_def lag_col_def)
  have len: "length (roll_col agg df target f s) = nrows d"
    using Cons.prems by (simp add: roll_col_def length_rolling length_lag_col)
  have "group_keys ?d [''device_id''] = group_keys df [''device_id'']"
    using Cons.prems len by (simp add: group_keys_set_col)
  moreover have "col ?d target = col df target"
    using Cons.prems a by (auto simp: col_set_col)
  moreover have "nrows ?d = nrows df"
    using Cons.prems len by (simp add: nrows_set_col)
  moreover have "target \<notin> (\<lambda>(s, f). roll_name f s unit) ` set ps"
    using Cons.prems by auto
  ultimately show ?case using Cons.IH [of ?d] step a by simp
qed

lemma case_prod_pair_map:
  "foldl (\<lambda>d (s, f). set_col (name s f) (val s f) d) d ps
     = assign_all d (map (\<lambda>(s, f). (name s f, val s f)) ps)"
  by (induction ps arbitrary: d) auto

lemma add_roll_features_closed:
  assumes "target \<notin> fst ` set (roll_assignments agg df target unit shifts functions)"
    and "group_keys d [''device_id''] = group_keys df [''device_id'']"
    and "col d target = col df target" and "nrows d = nrows df"
  shows "add_roll_features agg target unit shifts functions d
           = assign_all d (roll_assignments agg df target unit shifts functions)"
proof -
  let ?ps = "concat (map (\<lambda>s. map (\<lambda>f. (s, f)) functions) shifts)"
  have "target \<notin> (\<lambda>(s, f). roll_name f s unit) ` set ?ps"
    using assms(1) by (force simp: roll_assignments_def image_iff)
  then show ?thesis
    unfolding add_roll_features_def roll_assignments_def
    using add_roll_features_eq_aux [OF _ assms(2-4), of unit ?ps agg]
    by (simp add: case_prod_pair_map)
qed

lemma map_of_tabulate:
  "map_of (map (\<lambda>n. (n, g n)) names) n = (if n \<in> set names then Some (g n) else None)"
  by (induction names) auto

lemma col_tabulate: "col (map (\<lambda>n. (n, g n)) names) n = (if n \<in> set names then g n else [])"
  by (simp add: col_def map_of_tabulate)

lemma columns_tabulate: "columns (map (\<lambda>n. (n, g n)) names) = names"
  by (simp add: columns_def comp_def)

lemma columns_take_rows: "columns (take_rows idxs df) = columns df"
  by (simp add: take_rows_def columns_def comp_def case_prod_unfold)

lemma map_of_take_rows:
  "map_of (take_rows idxs df) n = map_option (\<lambda>c. map ((!) c) idxs) (map_of df n)"
  by (induction df) (auto simp: take_rows_def)

lemma col_take_rows:
  "n \<in> set (columns df) \<Longrightarrow> col (take_rows idxs df) n = map ((!) (col df n)) idxs"
proof -
  assume "n \<in> set (columns df)"
  then obtain c where "map_of df n = Some c"
    by (metis columns_def domD dom_map_of_conv_image_fst list.set_map)
  then show ?thesis by (simp add: col_def map_of_take_rows)
qed

lemma nrows_take_rows: "df \<noteq> [] \<Longrightarrow> nrows (take_rows idxs df) = length idxs"
  by (cases df) (auto simp: nrows_def take_rows_def)

lemma rect_take_rows: "rect (take_rows idxs df)"
proof (cases df)
  case Nil
  then show ?thesis by (simp add: rect_def take_rows_def)
next
  case (Cons a list)
  then have "nrows (take_rows idxs df) = length idxs" by (intro nrows_take_rows) simp
  then show ?thesis by (auto simp: rect_def list_all_iff take_rows_def)
qed

lemma columns_pd_concat:
  "columns (pd_concat a b) = columns a @ filter (\<lambda>n. n \<notin> set (columns a)) (columns b)"
  unfolding pd_concat_def by (rule columns_tabulate)

lemma col_pd_concat:
  "n \<in> set (columns a) \<Longrightarrow> n \<in> set (columns b) \<Longrightarrow> col (pd_concat a b) n = col a n @ col b n"
  unfolding pd_concat_def by (simp only: col_tabulate) simp

lemma col_drop_cols: "n \<notin> set names \<Longrightarrow> col (drop_cols names df) n = col df n"
  by (induction df) (auto simp: drop_cols_def col_def)

lemma iloc_last_row:
  "0 < nrows df \<Longrightarrow> iloc_rows_from (- 1) df = take_rows [nrows df - 1] df"
proof -
  assume n: "0 < nrows df"
  then have "nat (max 0 (int (nrows df) + - 1)) = nrows df - 1" by simp
  moreover have "[nrows df - 1..<nrows df] = [nrows df - 1]"
    using n by (metis Suc_diff_1 upt_rec upt_eq_Nil_conv lessI le_refl)
  ultimately show ?thesis by (simp add: iloc_rows_from_def Let_def)
qed

lemma col_append_last_row:
  assumes "0 < nrows df" "n \<in> set (columns df)"
  shows "col (pd_concat df (iloc_rows_from (- 1) df)) n = col df n @ [col df n ! (nrows df - 1)]"
  using assms by (simp add: iloc_last_row col_pd_concat columns_take_rows col_take_rows)

lemma columns_append_last_row:
  "columns (pd_concat df (iloc_rows_from (- 1) df)) = columns df"
  by (simp add: columns_pd_concat iloc_rows_from_def Let_def columns_take_rows)

lemma nrows_tabulate: "nrows (map (\<lambda>n. (n, g n)) names) = (case names of [] \<Rightarrow> 0 | n # ns \<Rightarrow> length (g n))"
  by (cases names) (auto simp: nrows_def)

lemma columns_nonempty: "n \<in> set (columns df) \<Longrightarrow> df \<noteq> []"
  by (auto simp: columns_def)

lemma nrows_pd_concat:
  assumes "columns a = n # ns"
  shows "nrows (pd_concat a b)
           = length (col a n) + length (if n \<in> set (columns b) then col b n else replicate (nrows b) NaN)"
proof -
  have "columns a @ filter (\<lambda>m. m \<notin> set (columns a)) (columns b)
          = n # (ns @ filter (\<lambda>m. m \<notin> set (columns a)) (columns b))"
    using assms by simp
  then show ?thesis
    unfolding pd_concat_def using assms by (simp only: nrows_tabulate) simp
qed

lemma nrows_append_last_row:
  assumes "rect df" "0 < nrows df"
  shows "nrows (pd_concat df (iloc_rows_from (- 1) df)) = Suc (nrows df)"
proof (cases df)
  case Nil
  then show ?thesis using assms by (simp add: nrows_def)
next
  case (Cons a list)
  obtain n c where a: "a = (n, c)" by (cases a)
  have n: "n \<in> set (columns df)" using Cons a by (simp add: columns_def)
  have "columns df = n # columns list" using Cons a by (simp add: columns_def)
  then have "nrows (pd_concat df (iloc_rows_from (- 1) df))
           = length (col df n) + length (col (iloc_rows_from (- 1) df) n)"
    using n by (simp add: nrows_pd_concat iloc_rows_from_def Let_def columns_take_rows)
  also have "\<dots> = Suc (nrows df)"
    using assms n by (simp add: iloc_last_row col_take_rows rect_col_length)
  finally show ?thesis .
qed

lemma rect_tabulate:
  "(\<And>n. n \<in> set names \<Longrightarrow> length (g n) = k) \<Longrightarrow> rect (map (\<lambda>n. (n, g n)) names)"
  by (cases names) (auto simp: rect_def nrows_def list_all_iff)

lemma rect_append_last_row:
  assumes "rect df" "0 < nrows df"
  shows "rect (pd_concat df (iloc_rows_from (- 1) df))"
proof -
  have cols: "columns (iloc_rows_from (- 1) df) = columns df"
    by (simp add: iloc_rows_from_def Let_def columns_take_rows)
  have "\<And>n. n \<in> set (columns df) \<Longrightarrow> length (col df n @ col (iloc_rows_from (- 1) df) n) = Suc (nrows df)"
    using assms by (simp add: iloc_last_row col_take_rows rect_col_length)
  then show ?thesis
    unfolding pd_concat_def cols
    by (intro rect_tabulate [where k = "Suc (nrows df)"]) auto
qed

lemma col_set_last:
  "col (set_last name v df) m = (if m = name then (col df name)[nrows df - 1 := v] else col df m)"
  by (simp add: set_last_def col_set_col)

lemma nrows_set_last:
  "rect df \<Longrightarrow> name \<in> set (columns df) \<Longrightarrow> nrows (set_last name v df) = nrows df"
  by (simp add: set_last_def nrows_set_col rect_col_length)

lemma rect_set_last:
  "rect df \<Longrightarrow> name \<in> set (columns df) \<Longrightarrow> rect (set_last name v df)"
  by (simp add: set_last_def rect_set_col rect_col_length)

lemma columns_set_last:
  "name \<in> set (columns df) \<Longrightarrow> columns (set_last name v df) = columns df"
  by (simp add: set_last_def columns_set_col)

section \<open>Shifts and windows read only earlier rows\<close>

lemma filter_upt_split:
  "t \<le> n \<Longrightarrow> filter P [0..<n] = filter P [0..<t] @ filter P [t..<n]"
proof -
  assume "t \<le> n"
  then have "[0..<n] = [0..<t] @ [t..<n]"
    by (metis le_add_diff_inverse upt_add_eq_append zero_le)
  then show ?thesis by (metis filter_append)
qed

lemma group_rows_split:
  assumes "t < length keys"
  shows "group_rows keys (keys ! t) =
           filter (\<lambda>j. keys ! j = keys ! t) [0..<t] @ t # filter (\<lambda>j. keys ! j = keys ! t) [Suc t..<length keys]"
proof -
  have "[t..<length keys] = t # [Suc t..<length keys]"
    using assms by (simp add: upt_conv_Cons)
  then show ?thesis
    using assms filter_upt_split [of t "length keys" "\<lambda>j. keys ! j = keys ! t"]
    by (simp add: group_rows_def)
qed

lemma shift_nth:
  "p < length xs \<Longrightarrow> shift k xs ! p = (if p < k then NaN else xs ! (p - k))"
  by (simp add: shift_def nth_append)

lemma groupby_shift_nth:
  assumes "t < length keys" "NaN \<notin> set (keys ! t)"
  shows "groupby_transform (shift k) keys vals ! t =
           (let g = group_rows keys (keys ! t);
                p = length (filter (\<lambda>j. keys ! j = keys ! t) [0..<t])
            in if p < k then NaN else vals ! (g ! (p - k)))"
proof -
  let ?pre = "filter (\<lambda>j. keys ! j = keys ! t) [0..<t]"
  let ?g = "group_rows keys (keys ! t)"
  have g: "?g = ?pre @ t # filter (\<lambda>j. keys ! j = keys ! t) [Suc t..<length keys]"
    using assms(1) by (rule group_rows_split)
  then have len: "length ?pre < length ?g" by simp
  have "groupby_transform (shift k) keys vals ! t = shift k (map ((!) vals) ?g) ! length ?pre"
    using assms by (simp add: groupby_transform_def)
  also have "\<dots> = (if length ?pre < k then NaN else map ((!) vals) ?g ! (length ?pre - k))"
    using len by (simp add: shift_nth)
  also have "\<dots> = (if length ?pre < k then NaN else vals ! (?g ! (length ?pre - k)))"
    using len by (auto simp: nth_map)
  finally show ?thesis by (simp add: Let_def)
qed

lemma group_rows_nth_position:
  assumes "t < length keys"
  shows "group_rows keys (keys ! t) ! length (filter (\<lambda>j. keys ! j = keys ! t) [0..<t]) = t"
  using group_rows_split [OF assms] by (simp add: nth_append)

lemma group_rows_earlier:
  assumes "t < length keys" "i < length (filter (\<lambda>j. keys ! j = keys ! t) [0..<t])"
  shows "group_rows keys (keys ! t) ! i < t"
proof -
  let ?pre = "filter (\<lambda>j. keys ! j = keys ! t) [0..<t]"
  have "group_rows keys (keys ! t) ! i = ?pre ! i"
    using group_rows_split [OF assms(1)] assms(2) by (simp add: nth_append)
  moreover have "?pre ! i \<in> set ?pre" using assms(2) by (rule nth_mem)
  then have "?pre ! i < t" by simp
  ultimately show ?thesis by simp
qed

lemma window_cells:
  assumes "s \<le> Suc t" "t < length xs"
  shows "take s (drop (Suc t - s) xs) = map ((!) xs) [Suc t - s..<Suc t]"
proof (rule nth_equalityI)
  show "length (take s (drop (Suc t - s) xs)) = length (map ((!) xs) [Suc t - s..<Suc t])"
    using assms by (simp add: min_def del: upt_Suc) arith
next
  fix i assume "i < length (take s (drop (Suc t - s) xs))"
  then have i: "i < s" by simp
  then have lt: "Suc t - s + i < Suc t" using assms(1) by simp
  have len: "length [Suc t - s..<Suc t] = s" using assms(1) by (simp del: upt_Suc)
  have m: "map ((!) xs) [Suc t - s..<Suc t] ! i = xs ! ([Suc t - s..<Suc t] ! i)"
    by (rule nth_map) (simp only: len i)
  have u: "[Suc t - s..<Suc t] ! i = Suc t - s + i"
    using lt by (rule nth_upt)
  have tk: "take s (drop (Suc t - s) xs) ! i = xs ! (Suc t - s + i)"
    using i assms lt by simp
  show "take s (drop (Suc t - s) xs) ! i = map ((!) xs) [Suc t - s..<Suc t] ! i"
    by (simp only: m u tk)
qed

lemma rolling_nth:
  assumes "t < length xs"
  shows "rolling s stat xs ! t =
           (if Suc t < s \<or> \<not> list_all is_num (map ((!) xs) [Suc t - s..<Suc t]) then NaN
            else (case stat xs t of None \<Rightarrow> NaN | Some x \<Rightarrow> Num x))"
proof (cases "Suc t < s")
  case True
  then show ?thesis using assms by (simp add: rolling_def)
next
  case False
  then have "take s (drop (Suc t - s) xs) = map ((!) xs) [Suc t - s..<Suc t]"
    using assms by (intro window_cells) simp_all
  then show ?thesis using assms False by (simp add: rolling_def Let_def)
qed

lemma is_numeric_rolling: "is_numeric (rolling s stat xs)"
  by (auto simp: is_numeric_def rolling_def list_all_iff Let_def split: option.splits)

lemma is_numeric_shift: "is_numeric xs \<Longrightarrow> is_numeric (shift k xs)"
  by (auto simp: is_numeric_def shift_def list_all_iff dest: in_set_takeD)

section \<open>The result of \<^verbatim>\<open>get_lag_and_roll_features\<close>\<close>

lemma map_fst_feature_assignments:
  "map fst (feature_assignments agg df target freq) = added_columns freq"
  by (simp add: feature_assignments_def added_columns_def lag_assignments_def roll_assignments_def)

lemma distinct_added_columns: "distinct (added_columns freq)"
  by (simp add: added_columns_def lag_name_def roll_name_def str_nat_vals)

lemma length_roll_col: "length (roll_col agg df target f s) = nrows df"
  by (simp add: roll_col_def length_rolling length_lag_col)

lemma length_feature_assignments:
  "\<forall>(n, v) \<in> set (feature_assignments agg df target freq). length v = nrows df"
  by (auto simp: feature_assignments_def lag_assignments_def roll_assignments_def
      length_lag_col length_roll_col)

lemma added_columns_neq:
  "n \<in> set (added_columns freq) \<Longrightarrow> n \<noteq> ''device_id'' \<and> n \<noteq> ''timestamp'' \<and> n \<noteq> ''site_id''"
  by (auto simp: added_columns_def split: if_splits)

lemma lag_roll_loops:
  assumes "target \<notin> set (added_columns freq)"
  shows "(if freq = ''daily''
          then add_roll_features agg target ''day'' [2, 3, 7] [''mean'', ''std'', ''max'', ''min'']
                 (add_lag_features target ''day'' [1, 2, 3, 7] df)
          else add_roll_features agg target ''hour'' [3, 6, 12, 24] [''mean'', ''std'', ''median'', ''skew'']
                 (add_lag_features target ''hour'' [1, 2, 6, 12] df))
         = assign_all df (feature_assignments agg df target freq)"
proof -
  have names: "target \<notin> fst ` set (feature_assignments agg df target freq)"
    using assms map_fst_feature_assignments [of agg df target freq]
    by (metis list.set_map)
  have inv: "group_keys (assign_all df (lag_assignments df target unit shifts)) [''device_id'']
               = group_keys df [''device_id'']
             \<and> nrows (assign_all df (lag_assignments df target unit shifts)) = nrows df" for unit shifts
  proof -
    let ?L = "lag_assignments df target unit shifts"
    have len: "\<forall>(n, v) \<in> set ?L. length v = nrows df"
      by (auto simp: lag_assignments_def length_lag_col)
    have dis: "set [''device_id''] \<inter> fst ` set ?L = {}"
      by (auto simp: lag_assignments_def lag_name_def)
    show ?thesis
      using group_keys_assign_all [OF len dis] nrows_assign_all [OF len] by simp
  qed
  show ?thesis
  proof (cases "freq = ''daily''")
    case True
    let ?L = "lag_assignments df target ''day'' [1, 2, 3, 7]"
    let ?R = "roll_assignments agg df target ''day'' [2, 3, 7] [''mean'', ''std'', ''max'', ''min'']"
    have l: "target \<notin> fst ` set ?L" and r: "target \<notin> fst ` set ?R"
      using names True by (auto simp: feature_assignments_def)
    have "add_lag_features target ''day'' [1, 2, 3, 7] df = assign_all df ?L"
      using l by (rule add_lag_features_closed)
    moreover have "add_roll_features agg target ''day'' [2, 3, 7] [''mean'', ''std'', ''max'', ''min'']
                     (assign_all df ?L) = assign_all (assign_all df ?L) ?R"
      using r inv l by (intro add_roll_features_closed) (auto simp: col_assign_all_other)
    ultimately show ?thesis using True by (simp add: feature_assignments_def assign_all_append)
  next
    case False
    let ?L = "lag_assignments df target ''hour'' [1, 2, 6, 12]"
    let ?R = "roll_assignments agg df target ''hour'' [3, 6, 12, 24] [''mean'', ''std'', ''median'', ''skew'']"
    have l: "target \<notin> fst ` set ?L" and r: "target \<notin> fst ` set ?R"
      using names False by (auto simp: feature_assignments_def)
    have "add_lag_features target ''hour'' [1, 2, 6, 12] df = assign_all df ?L"
      using l by (rule add_lag_features_closed)
    moreover have "add_roll_features agg target ''hour'' [3, 6, 12, 24] [''mean'', ''std'', ''median'', ''skew'']
                     (assign_all df ?L) = assign_all (assign_all df ?L) ?R"
      using r inv l by (intro add_roll_features_closed) (auto simp: col_assign_all_other)
    ultimately show ?thesis using False by (simp add: feature_assignments_def assign_all_append)
  qed
qed

lemma lag_and_roll_result:
  assumes "target \<notin> set (added_columns freq)" "is_numeric (col df target)"
  shows "(if freq = ''daily''
          then lag_and_roll agg target ''day'' [1, 2, 3, 7] [2, 3, 7]
                 [''mean'', ''std'', ''max'', ''min''] df
          else lag_and_roll agg target ''hour'' [1, 2, 6, 12] [3, 6, 12, 24]
                 [''mean'', ''std'', ''median'', ''skew''] df)
         = Inr (assign_all df (feature_assignments agg df target freq))"
proof -
  have names: "target \<notin> fst ` set (feature_assignments agg df target freq)"
    using assms(1) map_fst_feature_assignments [of agg df target freq]
    by (metis list.set_map)
  have num: "is_numeric (col (add_lag_features target unit shifts df) target)"
    if "target \<notin> fst ` set (lag_assignments df target unit shifts)" for unit shifts
    using that assms(2) by (simp add: add_lag_features_closed col_assign_all_other)
  show ?thesis
  proof (cases "freq = ''daily''")
    case True
    have "target \<notin> fst ` set (lag_assignments df target ''day'' [1, 2, 3, 7])"
      using names True by (auto simp: feature_assignments_def)
    then have "is_numeric (col (add_lag_features target ''day'' [1, 2, 3, 7] df) target)"
      by (rule num)
    then show ?thesis
      using lag_roll_loops [OF assms(1), of agg df] True by (simp add: lag_and_roll_def Let_def)
  next
    case False
    have "target \<notin> fst ` set (lag_assignments df target ''hour'' [1, 2, 6, 12])"
      using names False by (auto simp: feature_assignments_def)
    then have "is_numeric (col (add_lag_features target ''hour'' [1, 2, 6, 12] df) target)"
      by (rule num)
    then show ?thesis
      using lag_roll_loops [OF assms(1), of agg df] False by (simp add: lag_and_roll_def Let_def)
  qed
qed

lemma get_lag_and_roll_features_result:
  assumes "\<not> empty df" "target \<in> set (columns df)" "''timestamp'' \<in> set (columns df)"
    "''device_id'' \<in> set (columns df)" "to_datetime parse (col df ''timestamp'') = Some ts"
    "freq = ''daily'' \<or> freq = ''hourly''" "target \<notin> set (added_columns freq)"
    "is_numeric (col (set_col ''timestamp'' ts df) target)"
  shows "get_lag_and_roll_features parse agg df target freq =
           (set_col ''timestamp'' ts df,
            Inr (assign_all (set_col ''timestamp'' ts df)
                   (feature_assignments agg (set_col ''timestamp'' ts df) target freq)))"
  using assms(1-6) lag_and_roll_result [OF assms(7,8), of agg]
  by (auto simp: get_lag_and_roll_features_def Let_def)

lemma group_keys_nth:
  "j < nrows df \<Longrightarrow> group_keys df ns ! j = map (\<lambda>n. col df n ! j) ns"
  by (simp add: group_keys_def)

lemma device_group_rows:
  assumes "t < nrows df"
  shows "group_rows (group_keys df [''device_id'']) (group_keys df [''device_id''] ! t)
           = device_series df (col df ''device_id'' ! t)"
  using assms
  by (auto simp: group_rows_def device_series_def length_group_keys group_keys_nth intro!: filter_cong)

lemma device_rows_before:
  assumes "t < nrows df"
  shows "length (filter (\<lambda>j. group_keys df [''device_id''] ! j = group_keys df [''device_id''] ! t) [0..<t])
           = rows_before df t"
proof -
  have "filter (\<lambda>j. group_keys df [''device_id''] ! j = group_keys df [''device_id''] ! t) [0..<t]
          = filter (\<lambda>j. col df ''device_id'' ! j = col df ''device_id'' ! t) [0..<t]"
    using assms by (auto simp: group_keys_nth intro!: filter_cong)
  then show ?thesis by (simp add: rows_before_def)
qed

lemma lag_col_nth:
  assumes "t < nrows df" "col df ''device_id'' ! t \<noteq> NaN"
  shows "lag_col df target k ! t =
           (if rows_before df t < k then NaN
            else col df target ! (device_series df (col df ''device_id'' ! t) ! (rows_before df t - k)))"
proof -
  let ?keys = "group_keys df [''device_id'']"
  have t: "t < length ?keys" using assms(1) by (simp add: length_group_keys)
  have nan: "NaN \<notin> set (?keys ! t)" using assms by (simp add: group_keys_nth)
  show ?thesis
    unfolding lag_col_def
    using groupby_shift_nth [OF t nan, of k "col df target"] 
    by (simp add: device_group_rows [OF assms(1)] device_rows_before [OF assms(1)] Let_def)
qed

lemma device_series_cong:
  "col a ''device_id'' = col b ''device_id'' \<Longrightarrow> nrows a = nrows b \<Longrightarrow> device_series a d = device_series b d"
  by (simp add: device_series_def)

lemma rows_before_cong:
  "col a ''device_id'' = col b ''device_id'' \<Longrightarrow> rows_before a t = rows_before b t"
  by (simp add: rows_before_def)

lemma feature_frame_facts:
  fixes df :: frame and agg :: "string \<Rightarrow> nat \<Rightarrow> column \<Rightarrow> nat \<Rightarrow> real option" and out :: frame
  assumes "target \<notin> set (added_columns freq)"
  defines "out \<equiv> assign_all df (feature_assignments agg df target freq)"
  shows "nrows out = nrows df" "col out ''device_id'' = col df ''device_id''"
    "col out target = col df target"
    "set (columns out) = set (columns df) \<union> set (added_columns freq)"
    "(n, v) \<in> set (feature_assignments agg df target freq) \<Longrightarrow> col out n = v"
    "m \<notin> set (added_columns freq) \<Longrightarrow> col out m = col df m"
proof -
  let ?fa = "feature_assignments agg df target freq"
  have names: "fst ` set ?fa = set (added_columns freq)"
    using map_fst_feature_assignments [of agg df target freq] by (metis list.set_map)
  show "nrows out = nrows df"
    unfolding out_def using length_feature_assignments by (rule nrows_assign_all)
  show "col out ''device_id'' = col df ''device_id''"
    unfolding out_def using names added_columns_neq [of "''device_id''" freq]
    by (intro col_assign_all_other) auto
  show "col out target = col df target"
    unfolding out_def using names assms(1) by (intro col_assign_all_other) auto
  show "set (columns out) = set (columns df) \<union> set (added_columns freq)"
    unfolding out_def by (simp add: columns_assign_all names)
  show "(n, v) \<in> set ?fa \<Longrightarrow> col out n = v"
    unfolding out_def using distinct_added_columns [of freq]
    by (intro col_assign_all_distinct) (simp_all add: map_fst_feature_assignments)
  show "m \<notin> set (added_columns freq) \<Longrightarrow> col out m = col df m"
    unfolding out_def using names by (intro col_assign_all_other) auto
qed

lemma lag_assignments_mem:
  "k \<in> set shifts \<Longrightarrow> (lag_name k unit, lag_col df target k) \<in> set (lag_assignments df target unit shifts)"
  by (auto simp: lag_assignments_def)

lemma roll_assignments_mem:
  "s \<in> set shifts \<Longrightarrow> f \<in> set functions \<Longrightarrow>
     (roll_name f s unit, roll_col agg df target f s)
       \<in> set (roll_assignments agg df target unit shifts functions)"
  by (force simp: roll_assignments_def)

lemma lag_assignment_mem:
  assumes "freq = ''hourly'' \<and> k \<in> set [1, 2, 6, 12] \<or> freq = ''daily'' \<and> k \<in> set [1, 2, 3, 7]"
  shows "(lag_name k (if freq = ''hourly'' then ''hour'' else ''day''), lag_col df target k)
           \<in> set (feature_assignments agg df target freq)"
proof (cases "freq = ''daily''")
  case True
  then have "k \<in> set [1, 2, 3, 7]" using assms by auto
  then have "(lag_name k ''day'', lag_col df target k) \<in> set (lag_assignments df target ''day'' [1, 2, 3, 7])"
    by (rule lag_assignments_mem)
  then show ?thesis using True by (simp add: feature_assignments_def)
next
  case False
  then have h: "freq = ''hourly''" and "k \<in> set [1, 2, 6, 12]" using assms by auto
  then have "(lag_name k ''hour'', lag_col df target k) \<in> set (lag_assignments df target ''hour'' [1, 2, 6, 12])"
    by (intro lag_assignments_mem)
  then show ?thesis using h by (simp add: feature_assignments_def)
qed

lemma roll_assignment_mem:
  assumes "freq = ''hourly'' \<and> s \<in> set [3, 6, 12, 24] \<and> f \<in> set [''mean'', ''std'', ''median'', ''skew'']
           \<or> freq = ''daily'' \<and> s \<in> set [2, 3, 7] \<and> f \<in> set [''mean'', ''std'', ''max'', ''min'']"
  shows "(roll_name f s (if freq = ''hourly'' then ''hour'' else ''day''), roll_col agg df target f s)
           \<in> set (feature_assignments agg df target freq)"
proof (cases "freq = ''daily''")
  case True
  then have "s \<in> set [2, 3, 7]" "f \<in> set [''mean'', ''std'', ''max'', ''min'']" using assms by auto
  then have "(roll_name f s ''day'', roll_col agg df target f s)
               \<in> set (roll_assignments agg df target ''day'' [2, 3, 7] [''mean'', ''std'', ''max'', ''min''])"
    by (rule roll_assignments_mem)
  then show ?thesis using True by (simp add: feature_assignments_def)
next
  case False
  then have h: "freq = ''hourly''" and "s \<in> set [3, 6, 12, 24]" "f \<in> set [''mean'', ''std'', ''median'', ''skew'']"
    using assms by auto
  then have "(roll_name f s ''hour'', roll_col agg df target f s)
               \<in> set (roll_assignments agg df target ''hour'' [3, 6, 12, 24] [''mean'', ''std'', ''median'', ''skew''])"
    by (intro roll_assignments_mem)
  then show ?thesis using h by (simp add: feature_assignments_def)
qed

lemma set_names:
  "set (map (\<lambda>s. lag_name s unit) shifts @ concat (map (\<lambda>s. map (\<lambda>f. roll_name f s unit) functions) shifts2))
     = (\<Union>s\<in>set shifts. {lag_name s unit}) \<union> (\<Union>s\<in>set shifts2. \<Union>f\<in>set functions. {roll_name f s unit})"
  by auto

lemma added_columns_hourly:
  "set (added_columns ''hourly'') =
     (\<Union>s\<in>set [1, 2, 6, 12]. {lag_name s ''hour''})
     \<union> (\<Union>s\<in>set [3, 6, 12, 24]. \<Union>f\<in>set [''mean'', ''std'', ''median'', ''skew'']. {roll_name f s ''hour''})"
proof -
  have "''hourly'' \<noteq> ''daily''" by simp
  then have "added_columns ''hourly'' = map (\<lambda>s. lag_name s ''hour'') [1, 2, 6, 12]
           @ concat (map (\<lambda>s. map (\<lambda>f. roll_name f s ''hour'') [''mean'', ''std'', ''median'', ''skew''])
                       [3, 6, 12, 24])"
    unfolding added_columns_def by (rule if_not_P)
  then show ?thesis by (simp only: set_names)
qed

lemma added_columns_daily:
  "set (added_columns ''daily'') =
     (\<Union>s\<in>set [1, 2, 3, 7]. {lag_name s ''day''})
     \<union> (\<Union>s\<in>set [2, 3, 7]. \<Union>f\<in>set [''mean'', ''std'', ''max'', ''min'']. {roll_name f s ''day''})"
proof -
  have "added_columns ''daily'' = map (\<lambda>s. lag_name s ''day'') [1, 2, 3, 7]
           @ concat (map (\<lambda>s. map (\<lambda>f. roll_name f s ''day'') [''mean'', ''std'', ''max'', ''min'']) [2, 3, 7])"
    unfolding added_columns_def by (rule if_P) (rule refl)
  then show ?thesis by (simp only: set_names)
qed

lemma pm2_5_not_added: "''pm2_5'' \<notin> set (added_columns freq)"
  by (simp add: added_columns_def lag_name_def roll_name_def)



section \<open>Model registry: save with backup\<close>

lemma backup_path_neq: "backup_path b now n \<noteq> b @ ''/'' @ n"
proof
  assume "backup_path b now n = b @ ''/'' @ n"
  then have "length (backup_path b now n) = length (b @ ''/'' @ n)" by simp
  then show False by (simp add: backup_path_def)
qed

text \<open>
  C4 (as the code has it). When an artifact exists at the key, a save moves it to the backup
  path \<^verbatim>\<open>bucket/<now>-<name>\<close> (the time stamp is a prefix of the blob name, not a
  suffix), writes the new artifact at the key, and a load of the key then returns the new
  artifact; when no artifact exists the save still succeeds and the load returns the new
  artifact.
\<close>

theorem upload_backs_up_with_timestamp_prefix:
  "fst (upload_trained_model_to_gcs new b n now fs) (b @ ''/'' @ now @ ''-'' @ n) =
     (if fs (b @ ''/'' @ n) = None then fs (b @ ''/'' @ now @ ''-'' @ n) else fs (b @ ''/'' @ n))
   \<and> get_trained_model_from_gcs (fst (upload_trained_model_to_gcs new b n now fs)) b n = Inr new"
  using backup_path_neq [of b now n]
  by (auto simp: upload_trained_model_to_gcs_def fs_rename_def get_trained_model_from_gcs_def
      backup_path_def split: option.splits)

theorem upload_suffix_key_counterexample:
  "fst (upload_trained_model_to_gcs (2::nat) ''b'' ''m'' ''T''
          [''b/m'' \<mapsto> 1]) ''b/m-T'' = None
   \<and> fst (upload_trained_model_to_gcs (2::nat) ''b'' ''m'' ''T''
          [''b/m'' \<mapsto> 1]) ''b/T-m'' = Some 1"
  by (simp add: upload_trained_model_to_gcs_def fs_rename_def backup_path_def)

section \<open>Lag and rolling features\<close>

lemma lag_col_nth_missing_device:
  assumes "t < nrows df" "col df ''device_id'' ! t = NaN"
  shows "lag_col df target k ! t = NaN"
  using assms by (simp add: lag_col_def groupby_transform_def length_group_keys group_keys_nth)

lemma example_frame_ok:
  "rect example_frame" "\<not> empty example_frame" "''pm2_5'' \<in> set (columns example_frame)"
  "''timestamp'' \<in> set (columns example_frame)" "''device_id'' \<in> set (columns example_frame)"
  "to_datetime no_parse (col example_frame ''timestamp'')
     = Some [Time 0, Time 0, Time 3600000000000, Time 7200000000000, Time 10800000000000]"
  "is_numeric (col example_frame ''pm2_5'')"
  by (simp_all add: example_frame_def empty_def nrows_def columns_def col_def to_datetime_def
      to_datetime_cell_def rect_def is_numeric_def)

lemma example_frame_cells:
  "nrows example_frame = 5"
  "col example_frame ''device_id'' = [Str ''a'', Str ''b'', Str ''a'', Str ''a'', Str ''a'']"
  "col example_frame ''pm2_5'' = [Num 1, Num 10, Num 2, Num 3, Num 4]"
  "device_series example_frame (Str ''a'') = [0, 2, 3, 4]"
  "device_series example_frame (Str ''b'') = [1]"
  "map (rows_before example_frame) [0, 1, 2, 3, 4] = [0, 0, 1, 2, 3]"
  by code_simp+

lemma lag_and_roll_features_cells:
  assumes "rect df" "\<not> empty df" "target_col \<in> set (columns df)" "''timestamp'' \<in> set (columns df)"
    "''device_id'' \<in> set (columns df)" "to_datetime parse (col df ''timestamp'') = Some ts"
    "is_numeric (col df target_col)" "target_col \<noteq> ''timestamp''"
    "freq = ''daily'' \<or> freq = ''hourly''" "target_col \<notin> set (added_columns freq)"
  shows "\<exists>out. snd (get_lag_and_roll_features parse agg df target_col freq) = Inr out
     \<and> rect out \<and> nrows out = nrows df
     \<and> col out ''timestamp'' = ts
     \<and> (\<forall>n. n \<noteq> ''timestamp'' \<and> n \<notin> set (added_columns freq) \<longrightarrow> col out n = col df n)
     \<and> (freq = ''hourly'' \<longrightarrow> set (columns out) = set (columns df)
            \<union> (\<Union>s\<in>{1, 2, 6, 12}. {lag_name s ''hour''})
            \<union> (\<Union>s\<in>{3, 6, 12, 24}. \<Union>f\<in>{''mean'', ''std'', ''median'', ''skew''}. {roll_name f s ''hour''}))
     \<and> (freq = ''daily'' \<longrightarrow> set (columns out) = set (columns df)
            \<union> (\<Union>s\<in>{1, 2, 3, 7}. {lag_name s ''day''})
            \<union> (\<Union>s\<in>{2, 3, 7}. \<Union>f\<in>{''mean'', ''std'', ''max'', ''min''}. {roll_name f s ''day''}))
     \<and> (\<forall>k t. t < nrows df
            \<and> (freq = ''hourly'' \<and> k \<in> {1, 2, 6, 12} \<or> freq = ''daily'' \<and> k \<in> {1, 2, 3, 7})
          \<longrightarrow> col out (lag_name k (if freq = ''hourly'' then ''hour'' else ''day'')) ! t
               = (if col df ''device_id'' ! t = NaN \<or> rows_before df t < k then NaN
                  else col df target_col
                         ! (device_series df (col df ''device_id'' ! t) ! (rows_before df t - k))))
     \<and> (\<forall>s f t. t < nrows df
            \<and> (freq = ''hourly'' \<and> s \<in> {3, 6, 12, 24} \<and> f \<in> {''mean'', ''std'', ''median'', ''skew''}
               \<or> freq = ''daily'' \<and> s \<in> {2, 3, 7} \<and> f \<in> {''mean'', ''std'', ''max'', ''min''})
          \<longrightarrow> col out (roll_name f s (if freq = ''hourly'' then ''hour'' else ''day'')) ! t
               = (if Suc t < s
                     \<or> \<not> list_all is_num
                           (map ((!) (col out (lag_name 1 (if freq = ''hourly'' then ''hour'' else ''day''))))
                              [Suc t - s..<Suc t])
                  then NaN
                  else (case agg f s (col out (lag_name 1 (if freq = ''hourly'' then ''hour'' else ''day''))) t of
                          None \<Rightarrow> NaN
                        | Some x \<Rightarrow> Num x)))"
proof -
  define df' where "df' = set_col ''timestamp'' ts df"
  define out where "out = assign_all df' (feature_assignments agg df' target_col freq)"
  define unit where "unit = (if freq = ''hourly'' then ''hour'' else ''day'')"
  have lts: "length ts = nrows df"
    using length_to_datetime [OF assms(6)] rect_col_length [OF assms(1,4)] by simp
  have n': "nrows df' = nrows df" unfolding df'_def using lts by (rule nrows_set_col)
  have r': "rect df'" unfolding df'_def using assms(1) lts by (rule rect_set_col)
  have c': "col df' n = col df n" if "n \<noteq> ''timestamp''" for n
    using that by (simp add: df'_def col_set_col)
  have dev': "col df' ''device_id'' = col df ''device_id''" by (rule c') simp
  have tgt': "col df' target_col = col df target_col" using assms(8) by (rule c')
  have num: "is_numeric (col (set_col ''timestamp'' ts df) target_col)"
    using assms(7) tgt' by (simp add: df'_def)
  have res: "snd (get_lag_and_roll_features parse agg df target_col freq) = Inr out"
    using get_lag_and_roll_features_result [OF assms(2-6) assms(9,10) num, of agg]
    by (simp add: out_def df'_def)
  note facts = feature_frame_facts [OF assms(10), where df = df' and agg = agg, folded out_def]
  have rect: "rect out"
    unfolding out_def using r' length_feature_assignments by (rule rect_assign_all)
  have rows: "nrows out = nrows df" using facts(1) n' by simp
  have stamps: "col out ''timestamp'' = ts"
    using facts(6) [of "''timestamp''"] added_columns_neq [of "''timestamp''" freq]
    by (auto simp: df'_def col_set_col)
  have keep: "col out n = col df n" if "n \<noteq> ''timestamp''" "n \<notin> set (added_columns freq)" for n
    using facts(6) [OF that(2)] c' [OF that(1)] by simp
  have cols: "set (columns out) = set (columns df) \<union> set (added_columns freq)"
    using facts(4) assms(4) by (auto simp: df'_def set_columns_set_col)
  have colsH: "set (columns out) = set (columns df)
            \<union> (\<Union>s\<in>{1, 2, 6, 12}. {lag_name s ''hour''})
            \<union> (\<Union>s\<in>{3, 6, 12, 24}. \<Union>f\<in>{''mean'', ''std'', ''median'', ''skew''}. {roll_name f s ''hour''})"
    if "freq = ''hourly''"
    using cols that by (simp only: added_columns_hourly [unfolded list.set] Un_assoc)
  have colsD: "set (columns out) = set (columns df)
            \<union> (\<Union>s\<in>{1, 2, 3, 7}. {lag_name s ''day''})
            \<union> (\<Union>s\<in>{2, 3, 7}. \<Union>f\<in>{''mean'', ''std'', ''max'', ''min''}. {roll_name f s ''day''})"
    if "freq = ''daily''"
    using cols that by (simp only: added_columns_daily [unfolded list.set] Un_assoc)
  have lag_is: "col out (lag_name k unit) = lag_col df' target_col k"
    if k: "freq = ''hourly'' \<and> k \<in> {1, 2, 6, 12} \<or> freq = ''daily'' \<and> k \<in> {1, 2, 3, 7}" for k
  proof -
    have "(lag_name k (if freq = ''hourly'' then ''hour'' else ''day''), lag_col df' target_col k)
                 \<in> set (feature_assignments agg df' target_col freq)"
      using k by (intro lag_assignment_mem [unfolded list.set])
    then show ?thesis unfolding unit_def by (rule facts(5))
  qed
  have lag: "col out (lag_name k unit) ! t
               = (if col df ''device_id'' ! t = NaN \<or> rows_before df t < k then NaN
                  else col df target_col
                         ! (device_series df (col df ''device_id'' ! t) ! (rows_before df t - k)))"
    if t: "t < nrows df"
      and k: "freq = ''hourly'' \<and> k \<in> {1, 2, 6, 12} \<or> freq = ''daily'' \<and> k \<in> {1, 2, 3, 7}" for k t
  proof (cases "col df ''device_id'' ! t = NaN")
    case True
    then have "lag_col df' target_col k ! t = NaN"
      using t n' dev' by (intro lag_col_nth_missing_device) simp_all
    then show ?thesis using True lag_is [OF k] by simp
  next
    case False
    have "t < nrows df'" "col df' ''device_id'' ! t \<noteq> NaN"
      using t False n' dev' by simp_all
    then have "lag_col df' target_col k ! t =
           (if rows_before df' t < k then NaN
            else col df' target_col ! (device_series df' (col df' ''device_id'' ! t) ! (rows_before df' t - k)))"
      by (rule lag_col_nth)
    then show ?thesis
      using False lag_is [OF k] device_series_cong [OF dev' n'] rows_before_cong [OF dev'] dev' tgt'
      by simp
  qed
  have one: "freq = ''hourly'' \<and> (1::nat) \<in> {1, 2, 6, 12} \<or> freq = ''daily'' \<and> (1::nat) \<in> {1, 2, 3, 7}"
    using assms(9) by auto
  have roll: "col out (roll_name f s unit) ! t
               = (if Suc t < s \<or> \<not> list_all is_num (map ((!) (col out (lag_name 1 unit))) [Suc t - s..<Suc t])
                  then NaN
                  else (case agg f s (col out (lag_name 1 unit)) t of None \<Rightarrow> NaN | Some x \<Rightarrow> Num x))"
    if t: "t < nrows df"
      and s: "freq = ''hourly'' \<and> s \<in> {3, 6, 12, 24} \<and> f \<in> {''mean'', ''std'', ''median'', ''skew''}
               \<or> freq = ''daily'' \<and> s \<in> {2, 3, 7} \<and> f \<in> {''mean'', ''std'', ''max'', ''min''}" for s f t
  proof -
    have "(roll_name f s (if freq = ''hourly'' then ''hour'' else ''day''), roll_col agg df' target_col f s)
                 \<in> set (feature_assignments agg df' target_col freq)"
      using s by (intro roll_assignment_mem [unfolded list.set])
    then have "col out (roll_name f s unit) = roll_col agg df' target_col f s"
      unfolding unit_def by (rule facts(5))
    then have eq: "col out (roll_name f s unit) = rolling s (agg f s) (col out (lag_name 1 unit))"
      by (simp only: roll_col_def lag_is [OF one])
    have "t < length (col out (lag_name 1 unit))"
      using t n' by (simp only: lag_is [OF one] length_lag_col)
    then show ?thesis unfolding eq by (rule rolling_nth)
  qed
  show ?thesis
  proof (intro exI [of _ out] conjI impI allI)
    show "snd (get_lag_and_roll_features parse agg df target_col freq) = Inr out" by (rule res)
    show "rect out" by (rule rect)
    show "nrows out = nrows df" by (rule rows)
    show "col out ''timestamp'' = ts" by (rule stamps)
  next
    fix n assume "n \<noteq> ''timestamp'' \<and> n \<notin> set (added_columns freq)"
    then show "col out n = col df n" using keep by blast
  next
    assume "freq = ''hourly''"
    then show "set (columns out) = set (columns df)
            \<union> (\<Union>s\<in>{1, 2, 6, 12}. {lag_name s ''hour''})
            \<union> (\<Union>s\<in>{3, 6, 12, 24}. \<Union>f\<in>{''mean'', ''std'', ''median'', ''skew''}. {roll_name f s ''hour''})"
      by (rule colsH)
  next
    assume "freq = ''daily''"
    then show "set (columns out) = set (columns df)
            \<union> (\<Union>s\<in>{1, 2, 3, 7}. {lag_name s ''day''})
            \<union> (\<Union>s\<in>{2, 3, 7}. \<Union>f\<in>{''mean'', ''std'', ''max'', ''min''}. {roll_name f s ''day''})"
      by (rule colsD)
  next
    fix k t :: nat
    assume h: "t < nrows df
            \<and> (freq = ''hourly'' \<and> k \<in> {1, 2, 6, 12} \<or> freq = ''daily'' \<and> k \<in> {1, 2, 3, 7})"
    then have t: "t < nrows df"
      and k: "freq = ''hourly'' \<and> k \<in> {1, 2, 6, 12} \<or> freq = ''daily'' \<and> k \<in> {1, 2, 3, 7}"
      by (rule conjunct1, rule conjunct2)
    show "col out (lag_name k (if freq = ''hourly'' then ''hour'' else ''day'')) ! t
               = (if col df ''device_id'' ! t = NaN \<or> rows_before df t < k then NaN
                  else col df target_col
                         ! (device_series df (col df ''device_id'' ! t) ! (rows_before df t - k)))"
      using lag [OF t k] by (simp only: unit_def)
  next
    fix s :: nat and f :: string and t :: nat
    assume h: "t < nrows df
            \<and> (freq = ''hourly'' \<and> s \<in> {3, 6, 12, 24} \<and> f \<in> {''mean'', ''std'', ''median'', ''skew''}
               \<or> freq = ''daily'' \<and> s \<in> {2, 3, 7} \<and> f \<in> {''mean'', ''std'', ''max'', ''min''})"
    then have t: "t < nrows df"
      and s: "freq = ''hourly'' \<and> s \<in> {3, 6, 12, 24} \<and> f \<in> {''mean'', ''std'', ''median'', ''skew''}
               \<or> freq = ''daily'' \<and> s \<in> {2, 3, 7} \<and> f \<in> {''mean'', ''std'', ''max'', ''min''}"
      by (rule conjunct1, rule conjunct2)
    show "col out (roll_name f s (if freq = ''hourly'' then ''hour'' else ''day'')) ! t
               = (if Suc t < s
                     \<or> \<not> list_all is_num
                           (map ((!) (col out (lag_name 1 (if freq = ''hourly'' then ''hour'' else ''day''))))
                              [Suc t - s..<Suc t])
                  then NaN
                  else (case agg f s (col out (lag_name 1 (if freq = ''hourly'' then ''hour'' else ''day''))) t of
                          None \<Rightarrow> NaN
                        | Some x \<Rightarrow> Num x))"
      using roll [OF t s] by (simp only: unit_def)
  qed
qed

text \<open>
  C3. When \<^verbatim>\<open>get_lag_and_roll_features\<close> is given a rectangular, non-empty frame with
  the required columns, time stamps that parse and a numeric target column, it returns a
  frame with the rows of the input: the time stamps are the parsed ones and every other
  column of the input is unchanged. Its columns are those of the input together with,
  for hourly data, the lag columns for lags 1, 2, 6, 12 and the rolling columns for windows
  3, 6, 12, 24 with mean, std, median and skew, and for daily data the lag columns for lags
  1, 2, 3, 7 and the rolling columns for windows 2, 3, 7 with mean, std, max and min. At
  every row \<open>t\<close> the lag-\<open>k\<close> column holds the input's target value of the row \<open>k\<close>
  positions earlier in the series of the row's device, and is missing when fewer than \<open>k\<close>
  rows of the device precede \<open>t\<close> or the row has no device. At every row \<open>t\<close> the
  rolling column for window \<open>s\<close> and statistic \<open>f\<close> is missing when fewer than \<open>s\<close>
  rows end at \<open>t\<close> or one of the \<open>s\<close> cells of the lag-1 column ending at row \<open>t\<close> is
  missing, and is otherwise the statistic \<open>f\<close> of pandas for window \<open>s\<close> on the lag-1
  column at row \<open>t\<close>.
\<close>

theorem lag_and_roll_vocabulary:
  assumes "rect df" "\<not> empty df" "target_col \<in> set (columns df)" "''timestamp'' \<in> set (columns df)"
    "''device_id'' \<in> set (columns df)" "to_datetime parse (col df ''timestamp'') = Some ts"
    "is_numeric (col df target_col)" "target_col \<noteq> ''timestamp''"
    "freq = ''daily'' \<or> freq = ''hourly''" "target_col \<notin> set (added_columns freq)"
  shows "\<exists>out. snd (get_lag_and_roll_features parse agg df target_col freq) = Inr out
     \<and> rect out \<and> nrows out = nrows df
     \<and> col out ''timestamp'' = ts
     \<and> (\<forall>n. n \<noteq> ''timestamp'' \<and> n \<notin> set (added_columns freq) \<longrightarrow> col out n = col df n)
     \<and> (freq = ''hourly'' \<longrightarrow> set (columns out) = set (columns df)
            \<union> (\<Union>s\<in>{1, 2, 6, 12}. {lag_name s ''hour''})
            \<union> (\<Union>s\<in>{3, 6, 12, 24}. \<Union>f\<in>{''mean'', ''std'', ''median'', ''skew''}. {roll_name f s ''hour''}))
     \<and> (freq = ''daily'' \<longrightarrow> set (columns out) = set (columns df)
            \<union> (\<Union>s\<in>{1, 2, 3, 7}. {lag_name s ''day''})
            \<union> (\<Union>s\<in>{2, 3, 7}. \<Union>f\<in>{''mean'', ''std'', ''max'', ''min''}. {roll_name f s ''day''}))
     \<and> (\<forall>k t. t < nrows df
            \<and> (freq = ''hourly'' \<and> k \<in> {1, 2, 6, 12} \<or> freq = ''daily'' \<and> k \<in> {1, 2, 3, 7})
          \<longrightarrow> col out (lag_name k (if freq = ''hourly'' then ''hour'' else ''day'')) ! t
               = (if col df ''device_id'' ! t = NaN \<or> rows_before df t < k then NaN
                  else col df target_col
                         ! (device_series df (col df ''device_id'' ! t) ! (rows_before df t - k))))
     \<and> (\<forall>s f t. t < nrows df
            \<and> (freq = ''hourly'' \<and> s \<in> {3, 6, 12, 24} \<and> f \<in> {''mean'', ''std'', ''median'', ''skew''}
               \<or> freq = ''daily'' \<and> s \<in> {2, 3, 7} \<and> f \<in> {''mean'', ''std'', ''max'', ''min''})
          \<longrightarrow> col out (roll_name f s (if freq = ''hourly'' then ''hour'' else ''day'')) ! t
               = (if Suc t < s
                     \<or> \<not> list_all is_num
                           (map ((!) (col out (lag_name 1 (if freq = ''hourly'' then ''hour'' else ''day''))))
                              [Suc t - s..<Suc t])
                  then NaN
                  else (case agg f s (col out (lag_name 1 (if freq = ''hourly'' then ''hour'' else ''day''))) t of
                          None \<Rightarrow> NaN
                        | Some x \<Rightarrow> Num x)))"
  using assms by (rule lag_and_roll_features_cells)

theorem lag_and_roll_vocabulary_witness:
  "rect example_frame \<and> \<not> empty example_frame \<and> is_numeric (col example_frame ''pm2_5'')
   \<and> to_datetime no_parse (col example_frame ''timestamp'')
        = Some [Time 0, Time 0, Time 3600000000000, Time 7200000000000, Time 10800000000000]
   \<and> (\<exists>out. snd (get_lag_and_roll_features no_parse window_mean example_frame ''pm2_5'' ''hourly'') = Inr out
         \<and> nrows out = 5
         \<and> col out ''device_id'' = [Str ''a'', Str ''b'', Str ''a'', Str ''a'', Str ''a'']
         \<and> col out ''pm2_5'' = [Num 1, Num 10, Num 2, Num 3, Num 4]
         \<and> map ((!) (col out ''pm2_5_last_1_hour'')) [0, 1, 2, 3, 4] = [NaN, NaN, Num 1, Num 2, Num 3]
         \<and> map ((!) (col out ''pm2_5_last_2_hour'')) [0, 1, 2, 3, 4] = [NaN, NaN, NaN, Num 1, Num 2]
         \<and> map ((!) (col out ''pm2_5_mean_3_hour'')) [0, 1, 2, 3, 4] = [NaN, NaN, NaN, NaN, Num 2])"
proof -
  note ok = example_frame_ok
  note cells = example_frame_cells
  have fr: "''hourly'' = ''daily'' \<or> ''hourly'' = ''hourly''" by simp
  have ne: "''pm2_5'' \<noteq> ''timestamp''" by simp
  have rb: "rows_before example_frame 0 = 0" "rows_before example_frame 1 = 0"
    "rows_before example_frame 2 = 1" "rows_before example_frame 3 = 2"
    "rows_before example_frame 4 = 3" "rows_before example_frame (Suc 0) = 0"
    using cells(6) by simp_all
  obtain out where res: "snd (get_lag_and_roll_features no_parse window_mean example_frame ''pm2_5'' ''hourly'') = Inr out"
    and rows: "nrows out = nrows example_frame"
    and keep: "\<forall>n. n \<noteq> ''timestamp'' \<and> n \<notin> set (added_columns ''hourly'') \<longrightarrow> col out n = col example_frame n"
    and lag: "\<forall>k t. t < nrows example_frame
            \<and> (''hourly'' = ''hourly'' \<and> k \<in> {1, 2, 6, 12} \<or> ''hourly'' = ''daily'' \<and> k \<in> {1, 2, 3, 7})
          \<longrightarrow> col out (lag_name k (if ''hourly'' = ''hourly'' then ''hour'' else ''day'')) ! t
               = (if col example_frame ''device_id'' ! t = NaN \<or> rows_before example_frame t < k then NaN
                  else col example_frame ''pm2_5''
                         ! (device_series example_frame (col example_frame ''device_id'' ! t)
                              ! (rows_before example_frame t - k)))"
    and roll: "\<forall>s f t. t < nrows example_frame
            \<and> (''hourly'' = ''hourly'' \<and> s \<in> {3, 6, 12, 24} \<and> f \<in> {''mean'', ''std'', ''median'', ''skew''}
               \<or> ''hourly'' = ''daily'' \<and> s \<in> {2, 3, 7} \<and> f \<in> {''mean'', ''std'', ''max'', ''min''})
          \<longrightarrow> col out (roll_name f s (if ''hourly'' = ''hourly'' then ''hour'' else ''day'')) ! t
               = (if Suc t < s
                     \<or> \<not> list_all is_num
                           (map ((!) (col out (lag_name 1 (if ''hourly'' = ''hourly'' then ''hour'' else ''day''))))
                              [Suc t - s..<Suc t])
                  then NaN
                  else (case window_mean f s (col out (lag_name 1 (if ''hourly'' = ''hourly'' then ''hour'' else ''day''))) t of
                          None \<Rightarrow> NaN
                        | Some x \<Rightarrow> Num x))"
    using lag_and_roll_vocabulary [OF ok(1-7) ne fr pm2_5_not_added, of window_mean]
    by (elim exE conjE) (rule that, assumption+)
  have dev: "col out ''device_id'' = [Str ''a'', Str ''b'', Str ''a'', Str ''a'', Str ''a'']"
    using keep [rule_format, of "''device_id''"] added_columns_neq [of "''device_id''" "''hourly''"]
    by (auto simp: cells)
  have pm: "col out ''pm2_5'' = [Num 1, Num 10, Num 2, Num 3, Num 4]"
    using keep [rule_format, of "''pm2_5''"] pm2_5_not_added [of "''hourly''"]
    by (simp add: cells)
  have l1: "col out ''pm2_5_last_1_hour'' ! 0 = NaN" "col out ''pm2_5_last_1_hour'' ! 1 = NaN"
    "col out ''pm2_5_last_1_hour'' ! 2 = Num 1" "col out ''pm2_5_last_1_hour'' ! 3 = Num 2"
    "col out ''pm2_5_last_1_hour'' ! 4 = Num 3"
    using lag [rule_format, of 0 1] lag [rule_format, of 1 1] lag [rule_format, of 2 1]
      lag [rule_format, of 3 1] lag [rule_format, of 4 1]
    by (simp_all add: cells rb lag_name_def str_nat_vals)
  have l1': "col out ''pm2_5_last_1_hour'' ! Suc 0 = NaN" using l1(2) by simp
  have l2: "col out ''pm2_5_last_2_hour'' ! 0 = NaN" "col out ''pm2_5_last_2_hour'' ! 1 = NaN"
    "col out ''pm2_5_last_2_hour'' ! 2 = NaN" "col out ''pm2_5_last_2_hour'' ! 3 = Num 1"
    "col out ''pm2_5_last_2_hour'' ! 4 = Num 2"
    using lag [rule_format, of 0 2] lag [rule_format, of 1 2] lag [rule_format, of 2 2]
      lag [rule_format, of 3 2] lag [rule_format, of 4 2]
    by (simp_all add: cells rb lag_name_def str_nat_vals)
  have upt: "[Suc 0 - 3..<Suc 0] = [0]" "[Suc 1 - 3..<Suc 1] = [0, 1]" "[Suc 2 - 3..<Suc 2] = [0, 1, 2]"
    "[Suc 3 - 3..<Suc 3] = [1, 2, 3]" "[Suc 4 - 3..<Suc 4] = [2, 3, 4]"
    by code_simp+
  have m3: "col out ''pm2_5_mean_3_hour'' ! 0 = NaN" "col out ''pm2_5_mean_3_hour'' ! 1 = NaN"
    "col out ''pm2_5_mean_3_hour'' ! 2 = NaN" "col out ''pm2_5_mean_3_hour'' ! 3 = NaN"
    "col out ''pm2_5_mean_3_hour'' ! 4 = Num 2"
    using roll [rule_format, of 0 3 "''mean''"] roll [rule_format, of 1 3 "''mean''"]
      roll [rule_format, of 2 3 "''mean''"] roll [rule_format, of 3 3 "''mean''"]
      roll [rule_format, of 4 3 "''mean''"]
    by (simp_all only: upt) (simp_all add: cells l1 l1' roll_name_def lag_name_def str_nat_vals window_mean_def)
  show ?thesis
  proof (intro conjI exI [of _ out])
    show "snd (get_lag_and_roll_features no_parse window_mean example_frame ''pm2_5'' ''hourly'') = Inr out"
      by (rule res)
    show "nrows out = 5" using rows by (simp add: cells)
    show "map ((!) (col out ''pm2_5_last_1_hour'')) [0, 1, 2, 3, 4] = [NaN, NaN, Num 1, Num 2, Num 3]"
      using l1 by simp
    show "map ((!) (col out ''pm2_5_last_2_hour'')) [0, 1, 2, 3, 4] = [NaN, NaN, NaN, Num 1, Num 2]"
      using l2 by simp
    show "map ((!) (col out ''pm2_5_mean_3_hour'')) [0, 1, 2, 3, 4] = [NaN, NaN, NaN, NaN, Num 2]"
      using m3 by simp
  qed (rule ok dev pm)+
qed

section \<open>The grouping key of the lag and rolling features\<close>




section \<open>The forecast sink\<close>

















section \<open>What the feature operations do to the caller's table\<close>

lemma same_except_refl: "same_except S a a"
  by (simp add: same_except_def)

lemma same_except_set_col:
  assumes "n \<in> set (columns df)" "length c = nrows df" "n \<in> S"
  shows "same_except S (set_col n c df) df"
  using assms by (auto simp: same_except_def columns_set_col nrows_set_col col_set_col)

lemma same_except_trans:
  "same_except S a b \<Longrightarrow> same_except S b c \<Longrightarrow> same_except S a c"
  by (simp add: same_except_def)

lemma same_except_mono: "same_except S a b \<Longrightarrow> S \<subseteq> T \<Longrightarrow> same_except T a b"
  by (auto simp: same_except_def)

lemma length_interpolate_groups: "length (interpolate_groups gc d) = nrows d"
  by (simp add: interpolate_groups_def length_groupby_transform length_group_keys)

lemma fst_get_lag_and_roll_features:
  assumes "\<not> empty df" "target_col \<in> set (columns df)" "''timestamp'' \<in> set (columns df)"
    "''device_id'' \<in> set (columns df)" "to_datetime parse (col df ''timestamp'') = Some ts"
  shows "fst (get_lag_and_roll_features parse agg df target_col freq) = set_col ''timestamp'' ts df"
  using assms by (simp add: get_lag_and_roll_features_def Let_def)

lemma fst_get_time_features:
  assumes "\<not> empty df" "''timestamp'' \<in> set (columns df)"
    "to_datetime parse (col df ''timestamp'') = Some ts"
  shows "fst (get_time_features parse df freq) = set_col ''timestamp'' ts df"
  using assms by (simp add: get_time_features_def Let_def)

lemma fst_get_cyclic_features:
  "fst (get_cyclic_features parse df freq) = fst (get_time_features parse df freq)"
  by (simp add: get_cyclic_features_def split: prod.splits sum.splits)

lemma fst_preprocess_data:
  assumes "''device_id'' \<in> set (columns data)" "''pm2_5'' \<in> set (columns data)"
    "''timestamp'' \<in> set (columns data)" "to_datetime parse (col data ''timestamp'') = Some ts"
    "job_type = ''prediction'' \<longrightarrow> ''site_id'' \<in> set (columns data)"
  shows "fst (preprocess_data parse data data_frequency job_type) =
           (let gc = (if job_type = ''prediction'' then [''device_id'', ''site_id''] else [''device_id'']);
                data1 = set_col ''timestamp'' ts data;
                data2 = set_col ''pm2_5'' (interpolate_groups gc data1) data1
            in if data_frequency = ''daily'' then data2
               else set_col ''pm2_5'' (interpolate_groups gc data2) data2)"
  using assms
  by (auto simp: preprocess_data_def Let_def additional_columns_def set_columns_set_col)

lemma string_frame_ok:
  "rect string_frame" "\<not> empty string_frame"
  "''timestamp'' \<in> set (columns string_frame)" "''device_id'' \<in> set (columns string_frame)"
  "''pm2_5'' \<in> set (columns string_frame)"
  "''latitude'' \<in> set (columns string_frame)" "''longitude'' \<in> set (columns string_frame)"
  "is_numeric (col string_frame ''latitude'')" "is_numeric (col string_frame ''longitude'')"
  "to_datetime example_parse (col string_frame ''timestamp'') = Some [Time 0, Time 3600000000000]"
  by (simp_all add: string_frame_def empty_def nrows_def columns_def col_def to_datetime_def
      to_datetime_cell_def rect_def is_numeric_def example_parse_def in_bounds_def)

text \<open>
  C9, as the code has it. None of the operations reads or writes anything but its
  arguments, but each of them assigns to the table it is given. On a rectangular, non-empty
  table with the columns the operations require, whose time stamps parse:
  \<^verbatim>\<open>get_lag_and_roll_features\<close>, \<^verbatim>\<open>get_time_features\<close> and \<^verbatim>\<open>get_cyclic_features\<close>
  replace the caller's \<^verbatim>\<open>timestamp\<close> column by the parsed time stamps and leave
  every other column, the column names and the rows as they were;
  \<^verbatim>\<open>preprocess_data\<close> replaces the caller's \<^verbatim>\<open>timestamp\<close> column by the parsed time
  stamps and the caller's \<^verbatim>\<open>pm2_5\<close> column by the column interpolated within the
  groups (once for daily data, twice otherwise) and leaves the rest as it was;
  \<^verbatim>\<open>get_location_features\<close> returns the caller's table itself, with the time stamps
  parsed and the columns \<^verbatim>\<open>x_cord\<close>, \<^verbatim>\<open>y_cord\<close> and \<^verbatim>\<open>z_cord\<close> added.
\<close>

theorem feature_operations_assign_to_the_callers_table:
  assumes "rect df" "\<not> empty df" "''timestamp'' \<in> set (columns df)"
    "''device_id'' \<in> set (columns df)" "''pm2_5'' \<in> set (columns df)"
    "''latitude'' \<in> set (columns df)" "''longitude'' \<in> set (columns df)"
    "is_numeric (col df ''latitude'')" "is_numeric (col df ''longitude'')"
    "job_type = ''prediction'' \<longrightarrow> ''site_id'' \<in> set (columns df)"
    "to_datetime parse (col df ''timestamp'') = Some ts"
  shows "same_except {''timestamp''} (fst (get_lag_and_roll_features parse agg df ''pm2_5'' freq)) df
     \<and> col (fst (get_lag_and_roll_features parse agg df ''pm2_5'' freq)) ''timestamp'' = ts
     \<and> same_except {''timestamp''} (fst (get_time_features parse df freq)) df
     \<and> col (fst (get_time_features parse df freq)) ''timestamp'' = ts
     \<and> same_except {''timestamp''} (fst (get_cyclic_features parse df freq)) df
     \<and> col (fst (get_cyclic_features parse df freq)) ''timestamp'' = ts
     \<and> same_except {''timestamp'', ''pm2_5''} (fst (preprocess_data parse df freq job_type)) df
     \<and> col (fst (preprocess_data parse df freq job_type)) ''timestamp'' = ts
     \<and> col (fst (preprocess_data parse df freq job_type)) ''pm2_5''
         = (let gc = (if job_type = ''prediction'' then [''device_id'', ''site_id''] else [''device_id'']);
                data1 = set_col ''timestamp'' ts df;
                once = interpolate_groups gc data1
            in if freq = ''daily'' then once
               else interpolate_groups gc (set_col ''pm2_5'' once data1))
     \<and> (\<exists>out. get_location_features parse df = (out, Inr out)
           \<and> set (columns out) = set (columns df) \<union> {''x_cord'', ''y_cord'', ''z_cord''}
           \<and> nrows out = nrows df
           \<and> (\<forall>n. n \<notin> {''timestamp'', ''x_cord'', ''y_cord'', ''z_cord''} \<longrightarrow> col out n = col df n)
           \<and> col out ''timestamp'' = ts
           \<and> col out ''x_cord'' = map2 (cell_op2 (\<lambda>la lo. cos la * cos lo))
                                     (col df ''latitude'') (col df ''longitude'')
           \<and> col out ''y_cord'' = map2 (cell_op2 (\<lambda>la lo. cos la * sin lo))
                                     (col df ''latitude'') (col df ''longitude'')
           \<and> col out ''z_cord'' = map (cell_op1 sin) (col df ''latitude''))"
proof -
  define d1 where "d1 = set_col ''timestamp'' ts df"
  have lts: "length ts = nrows df"
    using length_to_datetime [OF assms(11)] rect_col_length [OF assms(1,3)] by simp
  have s1: "same_except {''timestamp''} d1 df"
    unfolding d1_def using assms(3) lts by (intro same_except_set_col) simp_all
  have t1: "col d1 ''timestamp'' = ts" by (simp add: d1_def col_set_col)
  have lag: "fst (get_lag_and_roll_features parse agg df ''pm2_5'' freq) = d1"
    unfolding d1_def using assms(2,5,3,4,11) by (rule fst_get_lag_and_roll_features)
  have tim: "fst (get_time_features parse df freq) = d1"
    unfolding d1_def using assms(2,3,11) by (rule fst_get_time_features)
  have cyc: "fst (get_cyclic_features parse df freq) = d1"
    using tim by (simp add: fst_get_cyclic_features)
  define gc where "gc = (if job_type = ''prediction'' then [''device_id'', ''site_id''] else [''device_id''])"
  define once where "once = interpolate_groups gc d1"
  define d2 where "d2 = set_col ''pm2_5'' once d1"
  define caller where "caller = (if freq = ''daily'' then d2 else set_col ''pm2_5'' (interpolate_groups gc d2) d2)"
  have pre: "fst (preprocess_data parse df freq job_type) = caller"
    using fst_preprocess_data [OF assms(4,5,3,11,10), of freq]
    by (simp add: Let_def caller_def d2_def once_def gc_def d1_def)
  have c1: "columns d1 = columns df" "nrows d1 = nrows df"
    using s1 by (simp_all add: same_except_def)
  have pm1: "''pm2_5'' \<in> set (columns d1)" using assms(5) c1 by simp
  have s2: "same_except {''timestamp'', ''pm2_5''} d2 d1"
    unfolding d2_def using pm1 by (intro same_except_set_col) (simp_all add: once_def length_interpolate_groups)
  have c2: "columns d2 = columns d1" "nrows d2 = nrows d1"
    using s2 by (simp_all add: same_except_def)
  have s3: "same_except {''timestamp'', ''pm2_5''} (set_col ''pm2_5'' (interpolate_groups gc d2) d2) d2"
    using pm1 c2 by (intro same_except_set_col) (simp_all add: length_interpolate_groups)
  have sc: "same_except {''timestamp'', ''pm2_5''} caller df"
  proof -
    have a: "same_except {''timestamp'', ''pm2_5''} d1 df"
      using s1 by (rule same_except_mono) simp
    have b: "same_except {''timestamp'', ''pm2_5''} d2 df"
      using s2 a by (rule same_except_trans)
    show ?thesis
      unfolding caller_def using b same_except_trans [OF s3 b] by simp
  qed
  have tc: "col caller ''timestamp'' = ts"
    by (simp add: caller_def d2_def col_set_col t1)
  have pc: "col caller ''pm2_5'' = (if freq = ''daily'' then once else interpolate_groups gc d2)"
    by (simp add: caller_def d2_def col_set_col)
  define x where "x = map2 (cell_op2 (\<lambda>la lo. cos la * cos lo)) (col df ''latitude'') (col df ''longitude'')"
  define y where "y = map2 (cell_op2 (\<lambda>la lo. cos la * sin lo)) (col df ''latitude'') (col df ''longitude'')"
  define z where "z = map (cell_op1 sin) (col df ''latitude'')"
  define out where "out = set_col ''z_cord'' z (set_col ''y_cord'' y (set_col ''x_cord'' x d1))"
  have ll: "col d1 ''latitude'' = col df ''latitude''" "col d1 ''longitude'' = col df ''longitude''"
    by (simp_all add: d1_def col_set_col)
  have loc: "get_location_features parse df = (out, Inr out)"
    using assms(2,3,6,7,8,9,11)
    by (simp add: get_location_features_def Let_def out_def x_def y_def z_def d1_def col_set_col)
  have len: "length (col df ''latitude'') = nrows df" "length (col df ''longitude'') = nrows df"
    using assms(1,6,7) by (simp_all add: rect_col_length)
  have lx: "length x = nrows df" and ly: "length y = nrows df" and lz: "length z = nrows df"
    using len by (simp_all add: x_def y_def z_def)
  have ocols: "set (columns out) = set (columns df) \<union> {''x_cord'', ''y_cord'', ''z_cord''}"
    using assms(3) by (auto simp: out_def d1_def set_columns_set_col)
  have orows: "nrows out = nrows df"
    using lx ly lz c1(2) by (simp add: out_def nrows_set_col)
  have okeep: "col out n = col df n" if "n \<notin> {''timestamp'', ''x_cord'', ''y_cord'', ''z_cord''}" for n
    using that by (simp add: out_def d1_def col_set_col)
  have ocell: "col out ''timestamp'' = ts" "col out ''x_cord'' = x" "col out ''y_cord'' = y"
    "col out ''z_cord'' = z"
    by (simp_all add: out_def d1_def col_set_col)
  show ?thesis
  proof (intro conjI)
    show "same_except {''timestamp''} (fst (get_lag_and_roll_features parse agg df ''pm2_5'' freq)) df"
      unfolding lag by (rule s1)
    show "col (fst (get_lag_and_roll_features parse agg df ''pm2_5'' freq)) ''timestamp'' = ts"
      unfolding lag by (rule t1)
    show "same_except {''timestamp''} (fst (get_time_features parse df freq)) df"
      unfolding tim by (rule s1)
    show "col (fst (get_time_features parse df freq)) ''timestamp'' = ts"
      unfolding tim by (rule t1)
    show "same_except {''timestamp''} (fst (get_cyclic_features parse df freq)) df"
      unfolding cyc by (rule s1)
    show "col (fst (get_cyclic_features parse df freq)) ''timestamp'' = ts"
      unfolding cyc by (rule t1)
    show "same_except {''timestamp'', ''pm2_5''} (fst (preprocess_data parse df freq job_type)) df"
      unfolding pre by (rule sc)
    show "col (fst (preprocess_data parse df freq job_type)) ''timestamp'' = ts"
      unfolding pre by (rule tc)
    show "col (fst (preprocess_data parse df freq job_type)) ''pm2_5''
         = (let gc = (if job_type = ''prediction'' then [''device_id'', ''site_id''] else [''device_id'']);
                data1 = set_col ''timestamp'' ts df;
                once = interpolate_groups gc data1
            in if freq = ''daily'' then once
               else interpolate_groups gc (set_col ''pm2_5'' once data1))"
      unfolding pre pc by (simp add: Let_def gc_def once_def d2_def d1_def)
    show "\<exists>out. get_location_features parse df = (out, Inr out)
           \<and> set (columns out) = set (columns df) \<union> {''x_cord'', ''y_cord'', ''z_cord''}
           \<and> nrows out = nrows df
           \<and> (\<forall>n. n \<notin> {''timestamp'', ''x_cord'', ''y_cord'', ''z_cord''} \<longrightarrow> col out n = col df n)
           \<and> col out ''timestamp'' = ts
           \<and> col out ''x_cord'' = map2 (cell_op2 (\<lambda>la lo. cos la * cos lo))
                                     (col df ''latitude'') (col df ''longitude'')
           \<and> col out ''y_cord'' = map2 (cell_op2 (\<lambda>la lo. cos la * sin lo))
                                     (col df ''latitude'') (col df ''longitude'')
           \<and> col out ''z_cord'' = map (cell_op1 sin) (col df ''latitude'')"
      using loc ocols orows okeep ocell
      by (intro exI [of _ out] conjI allI impI) (simp_all add: x_def y_def z_def)
  qed
qed

theorem feature_operations_assign_to_the_callers_table_witness:
  "rect string_frame \<and> \<not> empty string_frame
   \<and> to_datetime example_parse (col string_frame ''timestamp'') = Some [Time 0, Time 3600000000000]
   \<and> col string_frame ''timestamp'' = [Str ''1970-01-01 00:00'', Str ''1970-01-01 01:00'']
   \<and> col (fst (get_lag_and_roll_features example_parse window_mean string_frame ''pm2_5'' ''hourly''))
         ''timestamp'' = [Time 0, Time 3600000000000]
   \<and> col (fst (get_cyclic_features example_parse string_frame ''hourly'')) ''timestamp''
         = [Time 0, Time 3600000000000]
   \<and> col (fst (preprocess_data example_parse string_frame ''hourly'' ''train'')) ''timestamp''
         = [Time 0, Time 3600000000000]
   \<and> (\<exists>out. get_location_features example_parse string_frame = (out, Inr out)
          \<and> ''x_cord'' \<in> set (columns out) \<and> col out ''timestamp'' = [Time 0, Time 3600000000000])"
proof -
  have j: "''train'' = ''prediction'' \<longrightarrow> ''site_id'' \<in> set (columns string_frame)" by simp
  have c: "col string_frame ''timestamp'' = [Str ''1970-01-01 00:00'', Str ''1970-01-01 01:00'']"
    by (simp add: string_frame_def col_def)
  note t = feature_operations_assign_to_the_callers_table
      [OF string_frame_ok(1-9) j string_frame_ok(10), of window_mean "''hourly''"]
  show ?thesis
    using t by (intro conjI string_frame_ok c) auto
qed

text \<open>
  The table of the example after the calls: the caller's time stamps are no longer strings,
  the caller's missing target value is filled, and the caller's table has three more
  columns.
\<close>

theorem feature_operations_not_pure_counterexample:
  "col string_frame ''timestamp'' = [Str ''1970-01-01 00:00'', Str ''1970-01-01 01:00'']
   \<and> col (fst (get_lag_and_roll_features example_parse window_mean string_frame ''pm2_5'' ''hourly''))
         ''timestamp'' = [Time 0, Time 3600000000000]
   \<and> col string_frame ''pm2_5'' = [Num 1, NaN]
   \<and> col (fst (preprocess_data example_parse string_frame ''hourly'' ''train'')) ''pm2_5''
         = [Num 1, Num 1]
   \<and> columns string_frame
         = [''device_id'', ''site_id'', ''timestamp'', ''pm2_5'', ''latitude'', ''longitude'']
   \<and> columns (fst (get_location_features example_parse string_frame))
         = [''device_id'', ''site_id'', ''timestamp'', ''pm2_5'', ''latitude'', ''longitude'',
            ''x_cord'', ''y_cord'', ''z_cord'']"
proof (intro conjI)
  show "columns (fst (get_location_features example_parse string_frame))
         = [''device_id'', ''site_id'', ''timestamp'', ''pm2_5'', ''latitude'', ''longitude'',
            ''x_cord'', ''y_cord'', ''z_cord'']"
    by (simp add: get_location_features_def string_frame_def example_parse_def empty_def nrows_def
        columns_def col_def to_datetime_def to_datetime_cell_def in_bounds_def is_numeric_def
        set_col_def Let_def)
qed code_simp+

end
